theory Spec2Isabelle
  imports Complex_Main "HOL-Library.Char_ord" "HOL-Library.List_Lexorder" "HOL-Library.Sublist"
begin

section \<open>Calendar dates\<close>

text \<open>
  The program keeps every parsed date as a \<^verbatim>\<open>datetime\<close> at midnight. A date is modelled
  by its year, month and day; comparisons and date arithmetic go through the proleptic
  Gregorian ordinal, as \<^verbatim>\<open>datetime.toordinal\<close> computes it (day 1 is 0001-01-01).
\<close>

record date =
  year :: int
  month :: int
  day :: int

definition is_leap :: "int \<Rightarrow> bool" where
  "is_leap y = (y mod 4 = 0 \<and> (y mod 100 \<noteq> 0 \<or> y mod 400 = 0))"

definition days_in_month :: "int \<Rightarrow> int \<Rightarrow> int" where
  "days_in_month y m =
     (if m = 2 then (if is_leap y then 29 else 28)
      else if m = 4 \<or> m = 6 \<or> m = 9 \<or> m = 11 then 30 else 31)"

definition days_before_year :: "int \<Rightarrow> int" where
  "days_before_year y = (y - 1) * 365 + (y - 1) div 4 - (y - 1) div 100 + (y - 1) div 400"

fun days_before_month :: "int \<Rightarrow> nat \<Rightarrow> int" where
  "days_before_month y 0 = 0"
| "days_before_month y (Suc 0) = 0"
| "days_before_month y (Suc (Suc k)) =
     days_before_month y (Suc k) + days_in_month y (int (Suc k))"

definition toordinal :: "date \<Rightarrow> int" where
  "toordinal d = days_before_year (year d) + days_before_month (year d) (nat (month d)) + day d"

text \<open>\<^verbatim>\<open>datetime.MAXYEAR\<close> is 9999; the last representable day is 9999-12-31.\<close>

definition max_ordinal :: int where
  "max_ordinal = 3652059"

section \<open>The date parser\<close>

text \<open>
  \<^verbatim>\<open>datetime.strptime(s, fmt)\<close> turns the format into a regular expression, matches it at
  the start of the string with the usual priority of alternatives, rejects a match that
  leaves characters over, and rejects a day that the month does not have. Each of these
  failures is a \<^verbatim>\<open>ValueError\<close>, modelled by \<open>None\<close>. Strings are ASCII here, so a digit
  is one of the ten characters 0 to 9.
\<close>

text \<open>
  The six formats of the program use the directives \<^verbatim>\<open>%m\<close>, \<^verbatim>\<open>%d\<close>, \<^verbatim>\<open>%Y\<close> and \<^verbatim>\<open>%y\<close> and
  the separators \<^verbatim>\<open>/\<close> and \<^verbatim>\<open>-\<close>; every other character of a format stands for itself.
\<close>

datatype directive = Dir_m | Dir_d | Dir_Y | Dir_y | Lit char

fun directives_of :: "string \<Rightarrow> directive list" where
  "directives_of [] = []"
| "directives_of [c] = [Lit c]"
| "directives_of (c # e # cs) =
     (if c = CHR ''%'' then
        (if e = CHR ''m'' then Dir_m # directives_of cs
         else if e = CHR ''d'' then Dir_d # directives_of cs
         else if e = CHR ''Y'' then Dir_Y # directives_of cs
         else if e = CHR ''y'' then Dir_y # directives_of cs
         else Lit c # directives_of (e # cs))
      else Lit c # directives_of (e # cs))"

definition is_digit :: "char \<Rightarrow> bool" where
  "is_digit c = (c \<in> set ''0123456789'')"

definition digit_val :: "char \<Rightarrow> int" where
  "digit_val c = int (of_char c) - 48"

definition int_of_digits :: "string \<Rightarrow> int" where
  "int_of_digits s = foldl (\<lambda>a c. 10 * a + digit_val c) 0 (filter is_digit s)"

text \<open>
  The alternatives of one directive, in the order the regular expression tries them:
  \<^verbatim>\<open>%m\<close> is \<^verbatim>\<open>1[0-2]|0[1-9]|[1-9]\<close>, \<^verbatim>\<open>%d\<close> is \<^verbatim>\<open>3[0-1]|[1-2]\d|0[1-9]|[1-9]| [1-9]\<close>,
  \<^verbatim>\<open>%Y\<close> is four digits and \<^verbatim>\<open>%y\<close> is two. Each alternative that matches gives the text it
  takes and the rest of the string.
\<close>

definition in_range :: "char \<Rightarrow> char \<Rightarrow> char \<Rightarrow> bool" where
  "in_range lo hi c = (of_char lo \<le> (of_char c :: nat) \<and> (of_char c :: nat) \<le> of_char hi)"

fun take2 :: "(char \<Rightarrow> bool) \<Rightarrow> (char \<Rightarrow> bool) \<Rightarrow> string \<Rightarrow> (string \<times> string) list" where
  "take2 p q (a # b # rest) = (if p a \<and> q b then [([a, b], rest)] else [])"
| "take2 p q _ = []"

fun take1 :: "(char \<Rightarrow> bool) \<Rightarrow> string \<Rightarrow> (string \<times> string) list" where
  "take1 p (a # rest) = (if p a then [([a], rest)] else [])"
| "take1 p [] = []"

fun take4 :: "string \<Rightarrow> (string \<times> string) list" where
  "take4 (a # b # c # d # rest) =
     (if is_digit a \<and> is_digit b \<and> is_digit c \<and> is_digit d then [([a, b, c, d], rest)] else [])"
| "take4 _ = []"

fun alternatives :: "directive \<Rightarrow> string \<Rightarrow> (string \<times> string) list" where
  "alternatives Dir_m s =
     take2 (\<lambda>c. c = CHR ''1'') (in_range CHR ''0'' CHR ''2'') s
     @ take2 (\<lambda>c. c = CHR ''0'') (in_range CHR ''1'' CHR ''9'') s
     @ take1 (in_range CHR ''1'' CHR ''9'') s"
| "alternatives Dir_d s =
     take2 (\<lambda>c. c = CHR ''3'') (in_range CHR ''0'' CHR ''1'') s
     @ take2 (in_range CHR ''1'' CHR ''2'') is_digit s
     @ take2 (\<lambda>c. c = CHR ''0'') (in_range CHR ''1'' CHR ''9'') s
     @ take1 (in_range CHR ''1'' CHR ''9'') s
     @ take2 (\<lambda>c. c = CHR '' '') (in_range CHR ''1'' CHR ''9'') s"
| "alternatives Dir_Y s = take4 s"
| "alternatives Dir_y s = take2 is_digit is_digit s"
| "alternatives (Lit c) s = take1 (\<lambda>a. a = c) s"

text \<open>
  The match of a whole format: the first alternative of the first directive for which
  the remaining directives match what is left. The result is the text of every
  directive and the unmatched rest of the string.
\<close>

fun first_some :: "('a \<Rightarrow> 'b option) \<Rightarrow> 'a list \<Rightarrow> 'b option" where
  "first_some f [] = None"
| "first_some f (x # xs) = (case f x of Some y \<Rightarrow> Some y | None \<Rightarrow> first_some f xs)"

fun regex_match :: "directive list \<Rightarrow> string \<Rightarrow> ((directive \<times> string) list \<times> string) option" where
  "regex_match [] s = Some ([], s)"
| "regex_match (d # ds) s =
     first_some (\<lambda>tr. case regex_match ds (snd tr) of
                         None \<Rightarrow> None
                       | Some (gs, r) \<Rightarrow> Some ((d, fst tr) # gs, r))
                (alternatives d s)"

definition group :: "directive \<Rightarrow> (directive \<times> string) list \<Rightarrow> string option" where
  "group d gs = map_of gs d"

text \<open>A two-digit year up to 68 is in the 2000s, from 69 on in the 1900s.\<close>

definition year_of_groups :: "(directive \<times> string) list \<Rightarrow> int" where
  "year_of_groups gs =
     (case group Dir_Y gs of
        Some t \<Rightarrow> int_of_digits t
      | None \<Rightarrow> (case group Dir_y gs of
                   Some t \<Rightarrow> (if int_of_digits t \<le> 68 then 2000 + int_of_digits t
                              else 1900 + int_of_digits t)
                 | None \<Rightarrow> 1900))"

definition field_of_groups :: "directive \<Rightarrow> (directive \<times> string) list \<Rightarrow> int" where
  "field_of_groups d gs = (case group d gs of Some t \<Rightarrow> int_of_digits t | None \<Rightarrow> 1)"

definition strptime :: "string \<Rightarrow> string \<Rightarrow> date option" where
  "strptime s fmt =
     (case regex_match (directives_of fmt) s of
        None \<Rightarrow> None
      | Some (gs, rest) \<Rightarrow>
          if rest \<noteq> [] then None
          else (let y = year_of_groups gs; m = field_of_groups Dir_m gs;
                    d = field_of_groups Dir_d gs
                in if y < 1 \<or> d > days_in_month y m then None
                   else Some \<lparr>year = y, month = m, day = d\<rparr>))"

text \<open>The format list, the same tuple at every place the program parses a date.\<close>

definition date_formats :: "string list" where
  "date_formats = [''%m/%d/%Y'', ''%m/%d/%y'', ''%Y-%m-%d'', ''%d-%m-%Y'', ''%d/%m/%Y'', ''%d/%m/%y'']"

text \<open>
  A cell of the date column is a string or missing (\<^verbatim>\<open>NaN\<close>). \<^verbatim>\<open>str\<close> of a missing cell
  is the text \<^verbatim>\<open>nan\<close>; \<^verbatim>\<open>strptime\<close> of a missing cell itself is a \<^verbatim>\<open>TypeError\<close>.
\<close>

datatype error =
    ValueError string
  | TypeError
  | OverflowError
  | RuntimeError string
  | AttributeError
  | FileNotFoundError string
  | Exception string

type_synonym 'a result = "error + 'a"

text \<open>
  \<^verbatim>\<open>str(e)\<close>, the text of an exception. The program writes the text of the exceptions it
  raises itself; the text that the library gives to its own exceptions is not modelled.
\<close>

fun message_of :: "error \<Rightarrow> string" where
  "message_of (ValueError m) = m"
| "message_of (RuntimeError m) = m"
| "message_of (FileNotFoundError m) = m"
| "message_of (Exception m) = m"
| "message_of TypeError = []"
| "message_of OverflowError = []"
| "message_of AttributeError = []"

definition py_str :: "string option \<Rightarrow> string" where
  "py_str c = (case c of Some s \<Rightarrow> s | None \<Rightarrow> ''nan'')"

text \<open>
  \<^verbatim>\<open>parse_date\<close>, the local function of \<^verbatim>\<open>predict_for_room\<close>: a missing cell is \<^verbatim>\<open>NaT\<close>
  at once, otherwise the first format that parses \<^verbatim>\<open>str(date_str)\<close> wins, and \<^verbatim>\<open>NaT\<close> is
  returned when none does. \<open>None\<close> is \<^verbatim>\<open>NaT\<close>. Every \<^verbatim>\<open>ValueError\<close> is caught and nothing
  else can be raised, so the function has no error result.
\<close>

definition try_formats :: "string \<Rightarrow> string list \<Rightarrow> date option" where
  "try_formats s fmts = first_some (strptime s) fmts"

definition parse_date :: "string option \<Rightarrow> date option" where
  "parse_date date_str =
     (case date_str of
        None \<Rightarrow> None
      | Some _ \<Rightarrow> try_formats (py_str date_str) date_formats)"

text \<open>
  The loops of \<^verbatim>\<open>get_device_details\<close> and of the upcoming view hand the cell to
  \<^verbatim>\<open>strptime\<close> as it is and catch \<^verbatim>\<open>ValueError\<close> only: a missing cell is a \<^verbatim>\<open>TypeError\<close>
  that leaves the operation.
\<close>

definition parse_raw :: "string option \<Rightarrow> date option result" where
  "parse_raw cell =
     (case cell of
        None \<Rightarrow> Inl TypeError
      | Some s \<Rightarrow> Inr (try_formats s date_formats))"

text \<open>The loops of the dashboard and of the weekly view parse \<^verbatim>\<open>str(cell)\<close>.\<close>

definition parse_str :: "string option \<Rightarrow> date option" where
  "parse_str cell = try_formats (py_str cell) date_formats"

section \<open>Records, model and state\<close>

text \<open>
  A row of the data frame. A missing cell (\<^verbatim>\<open>NaN\<close>) is \<open>None\<close>. The three features are
  numbers; the regressor's floating-point output is modelled by a real number.
\<close>

record device_record =
  room_number :: int
  appliance_type :: string
  last_maintenance_date :: "string option"
  usage_hours :: "real option"
  average_daily_usage :: "real option"
  device_year :: "real option"
  status :: "string option"
  warranty_year :: "int option"

type_synonym regressor = "real \<Rightarrow> real \<Rightarrow> real \<Rightarrow> real"

text \<open>
  The object's attributes. \<open>loaded_file_path\<close> is \<open>None\<close> as long as the attribute has
  not been assigned: the constructor does not create it, only \<^verbatim>\<open>load_hotel_data\<close> does.
  The rows carry the default index 0, 1, 2, ... of the data frame.
\<close>

record model_state =
  hotel_model :: "regressor option"
  loaded_training_df :: "device_record list"
  loaded_file_path :: "string option"

text \<open>The clock: today's ordinal (midnight) and the current calendar year.\<close>

record clock =
  today :: int
  current_year :: int

definition indexed :: "device_record list \<Rightarrow> (nat \<times> device_record) list" where
  "indexed df = enumerate 0 df"

text \<open>
  \<^verbatim>\<open>hotel_model.predict\<close> on the three features of one row. The gradient boosting
  regressor refuses an input that contains \<^verbatim>\<open>NaN\<close> with a \<^verbatim>\<open>ValueError\<close>.
\<close>

definition model_predict :: "regressor \<Rightarrow> device_record \<Rightarrow> real result" where
  "model_predict g row =
     (case (usage_hours row, average_daily_usage row, device_year row) of
        (Some u, Some a, Some y) \<Rightarrow> Inr (g u a y)
      | _ \<Rightarrow> Inl (ValueError ''Input X contains NaN.''))"

text \<open>\<^verbatim>\<open>predicted_days_since = max(0, predicted_days_since)\<close>\<close>

definition predicted_days_since :: "regressor \<Rightarrow> device_record \<Rightarrow> real result" where
  "predicted_days_since g row =
     (case model_predict g row of Inl e \<Rightarrow> Inl e | Inr p \<Rightarrow> Inr (max 0 p))"

text \<open>
  Python's \<^verbatim>\<open>round\<close> goes to the nearest integer, a tie to the even one. The model rounds
  the real number; the binary representation of a float is not modelled.
\<close>

definition py_round :: "real \<Rightarrow> int" where
  "py_round x =
     (let f = \<lfloor>x\<rfloor>; r = x - of_int f
      in if r < 1 / 2 then f else if 1 / 2 < r then f + 1 else if even f then f else f + 1)"

definition round2 :: "real \<Rightarrow> real" where
  "round2 x = of_int (py_round (x * 100)) / 100"

text \<open>\<^verbatim>\<open>int(x)\<close> of a number truncates towards zero.\<close>

definition py_int :: "real \<Rightarrow> int" where
  "py_int x = (if 0 \<le> x then \<lfloor>x\<rfloor> else \<lceil>x\<rceil>)"

text \<open>
  \<^verbatim>\<open>timedelta(days=x)\<close> keeps whole microseconds; its whole days are what moves the date
  once the time of day is cut off. \<^verbatim>\<open>parsed + timedelta(days=x)\<close> is an \<^verbatim>\<open>OverflowError\<close>
  beyond the last day of year 9999. The result is the ordinal of the new date.
\<close>

definition timedelta_days :: "real \<Rightarrow> int" where
  "timedelta_days x = py_round (x * 86400000000) div 86400000000"

definition add_days :: "date \<Rightarrow> real \<Rightarrow> int result" where
  "add_days d x =
     (let n = toordinal d + timedelta_days x
      in if max_ordinal < n then Inl OverflowError else Inr n)"

definition next_date :: "date option \<Rightarrow> real \<Rightarrow> int option result" where
  "next_date parsed x =
     (case parsed of
        None \<Rightarrow> Inr None
      | Some d \<Rightarrow> (case add_days d x of Inl e \<Rightarrow> Inl e | Inr n \<Rightarrow> Inr (Some n)))"

text \<open>
  A loop over rows that appends an entry, skips the row, or is left by an exception:
  the first row that raises decides.
\<close>

fun collect :: "('a \<Rightarrow> 'b option result) \<Rightarrow> 'a list \<Rightarrow> 'b list result" where
  "collect f [] = Inr []"
| "collect f (x # xs) =
     (case f x of
        Inl e \<Rightarrow> Inl e
      | Inr r \<Rightarrow> (case collect f xs of
                   Inl e \<Rightarrow> Inl e
                 | Inr ys \<Rightarrow> Inr (case r of None \<Rightarrow> ys | Some y \<Rightarrow> y # ys)))"

section \<open>Results\<close>

text \<open>
  The dictionaries the operations return, as records. A date is kept as its ordinal and
  a number as a number where the program prints them into a string; \<open>None\<close> is the text
  \<^verbatim>\<open>N/A\<close> (for \<open>issue_reported\<close>, a missing cell passed through). \<^verbatim>\<open>predict_for_room\<close> spells
  four of the keys in camel case; the values are the same.
\<close>

record device_info =
  room_no :: int
  device_id :: int
  device_name :: string
  issue_reported :: "string option"
  device_year_str :: "int option"
  under_warranty :: string
  warranty_year_till :: "int option"
  previous_maintenance_date :: "int option"
  next_maintenance_date :: "int option"

record device_prediction = device_info +
  predictedDaysSinceMaintenance :: real

record pending_entry =
  pending_room_no :: int
  pending_device_id :: int
  pending_device_name :: string
  maintenance_date :: int

record dashboard_data =
  total_devices :: nat
  running :: int
  down :: int
  due_maintenance :: int
  under_maintenance :: int
  Pending_maintenance :: "pending_entry list"
  loaded_data_file :: string

datatype dashboard = Not_loaded string | Dashboard dashboard_data

section \<open>The device resolver and \<^verbatim>\<open>predict_for_room\<close>\<close>

text \<open>
  A row of the room with its index and its parsed date (the added column
  \<^verbatim>\<open>Parsed_Maintenance_Date\<close>). The data frame keeps the parsed dates as its own timestamps,
  whose range is narrower than that of \<^verbatim>\<open>datetime\<close>; the model keeps the bound of
  \<^verbatim>\<open>datetime\<close> for the date arithmetic of every operation.
\<close>

type_synonym parsed_row = "nat \<times> device_record \<times> date option"

definition row_of :: "parsed_row \<Rightarrow> device_record" where
  "row_of pr = fst (snd pr)"

definition parsed_of :: "parsed_row \<Rightarrow> date option" where
  "parsed_of pr = snd (snd pr)"

text \<open>
  \<^verbatim>\<open>sort_values(ascending=False)\<close>: the later date first, \<^verbatim>\<open>NaT\<close> last. \<open>not_before a b\<close>
  says that a row dated \<open>a\<close> may stand before a row dated \<open>b\<close>. The sort is an insertion
  sort that leaves rows of equal date in the order of the frame. The library's default
  sort promises no order among them, so among rows of one type with the same latest date
  the program may keep another one than the model does; what is proved about the kept
  rows holds for every sorted arrangement of the rows.
\<close>

definition not_before :: "date option \<Rightarrow> date option \<Rightarrow> bool" where
  "not_before a b =
     (case b of
        None \<Rightarrow> True
      | Some y \<Rightarrow> (case a of None \<Rightarrow> False | Some x \<Rightarrow> toordinal y \<le> toordinal x))"

fun insert_desc :: "parsed_row \<Rightarrow> parsed_row list \<Rightarrow> parsed_row list" where
  "insert_desc x [] = [x]"
| "insert_desc x (y # ys) =
     (if not_before (parsed_of x) (parsed_of y) then x # y # ys else y # insert_desc x ys)"

definition sort_values_desc :: "parsed_row list \<Rightarrow> parsed_row list" where
  "sort_values_desc xs = foldr insert_desc xs []"

text \<open>\<^verbatim>\<open>drop_duplicates(keep='first')\<close> on the key \<open>k\<close>; \<open>seen\<close> holds the keys already kept.\<close>

fun drop_duplicates_from :: "'k list \<Rightarrow> ('a \<Rightarrow> 'k) \<Rightarrow> 'a list \<Rightarrow> 'a list" where
  "drop_duplicates_from seen k [] = []"
| "drop_duplicates_from seen k (x # xs) =
     (if k x \<in> set seen then drop_duplicates_from seen k xs
      else x # drop_duplicates_from (k x # seen) k xs)"

definition drop_duplicates :: "('a \<Rightarrow> 'k) \<Rightarrow> 'a list \<Rightarrow> 'a list" where
  "drop_duplicates k xs = drop_duplicates_from [] k xs"

definition room_devices :: "device_record list \<Rightarrow> int \<Rightarrow> (nat \<times> device_record) list" where
  "room_devices df room = filter (\<lambda>ir. room_number (snd ir) = room) (indexed df)"

definition resolve_room_devices :: "device_record list \<Rightarrow> int \<Rightarrow> parsed_row list" where
  "resolve_room_devices df room =
     drop_duplicates (\<lambda>pr. appliance_type (row_of pr))
       (sort_values_desc
          (map (\<lambda>ir. (fst ir, snd ir, parse_date (last_maintenance_date (snd ir))))
               (room_devices df room)))"

definition warranty_flag :: "string \<Rightarrow> string \<Rightarrow> int \<Rightarrow> int option \<Rightarrow> string" where
  "warranty_flag yes no cy w =
     (case w of None \<Rightarrow> no | Some y \<Rightarrow> if cy \<le> y then yes else no)"

definition status_or_None :: "string option \<Rightarrow> string option" where
  "status_or_None st = Some (case st of Some s \<Rightarrow> s | None \<Rightarrow> ''None'')"

definition room_entry :: "regressor \<Rightarrow> clock \<Rightarrow> parsed_row \<Rightarrow> device_prediction option result" where
  "room_entry g clk pr =
     (let index = fst pr; row = row_of pr; parsed_date_obj = parsed_of pr
      in case predicted_days_since g row of
           Inl e \<Rightarrow> Inl e
         | Inr days \<Rightarrow>
             (case next_date parsed_date_obj days of
                Inl e \<Rightarrow> Inl e
              | Inr next_maint_date \<Rightarrow>
                  Inr (Some \<lparr>room_no = room_number row,
                             device_id = int index + 1,
                             device_name = appliance_type row,
                             issue_reported = status_or_None (status row),
                             device_year_str = map_option py_int (device_year row),
                             under_warranty =
                               warranty_flag ''yes'' ''no'' (current_year clk) (warranty_year row),
                             warranty_year_till = warranty_year row,
                             previous_maintenance_date = map_option toordinal parsed_date_obj,
                             next_maintenance_date = next_maint_date,
                             predictedDaysSinceMaintenance = round2 days\<rparr>)))"

definition predict_for_room :: "model_state \<Rightarrow> clock \<Rightarrow> int \<Rightarrow> device_prediction list result" where
  "predict_for_room st clk room =
     (case hotel_model st of
        None \<Rightarrow> Inl (RuntimeError ''Model or training data not loaded.'')
      | Some g \<Rightarrow>
          if loaded_training_df st = [] then Inl (RuntimeError ''Model or training data not loaded.'')
          else if room_devices (loaded_training_df st) room = [] then Inr []
          else collect (room_entry g clk) (resolve_room_devices (loaded_training_df st) room))"

section \<open>\<^verbatim>\<open>get_device_details\<close>\<close>

text \<open>The empty dictionary of a lookup that finds nothing is \<open>None\<close>.\<close>

definition device_data :: "device_record list \<Rightarrow> int \<Rightarrow> string \<Rightarrow> (nat \<times> device_record) list" where
  "device_data df room appl =
     filter (\<lambda>ir. room_number (snd ir) = room \<and> appliance_type (snd ir) = appl) (indexed df)"

definition details_of :: "regressor \<Rightarrow> clock \<Rightarrow> nat \<times> device_record \<Rightarrow> device_info result" where
  "details_of g clk ir =
     (let device = snd ir
      in case predicted_days_since g device of
           Inl e \<Rightarrow> Inl e
         | Inr days \<Rightarrow>
             (case parse_raw (last_maintenance_date device) of
                Inl e \<Rightarrow> Inl e
              | Inr parsed_date_obj \<Rightarrow>
                  (case next_date parsed_date_obj days of
                     Inl e \<Rightarrow> Inl e
                   | Inr next_maint_date \<Rightarrow>
                       Inr \<lparr>room_no = room_number device,
                            device_id = int (fst ir) + 1,
                            device_name = appliance_type device,
                            issue_reported = status_or_None (status device),
                            device_year_str = map_option py_int (device_year device),
                            under_warranty =
                              warranty_flag ''Yes'' ''No'' (current_year clk) (warranty_year device),
                            warranty_year_till = warranty_year device,
                            previous_maintenance_date = map_option toordinal parsed_date_obj,
                            next_maintenance_date = next_maint_date\<rparr>)))"

definition get_device_details :: "model_state \<Rightarrow> clock \<Rightarrow> int \<Rightarrow> string \<Rightarrow> device_info option result" where
  "get_device_details st clk room appl =
     (if loaded_training_df st = [] then Inl (RuntimeError ''Training data not loaded.'')
      else case hotel_model st of
             None \<Rightarrow> Inl (RuntimeError ''Predictive maintenance model not trained.'')
           | Some g \<Rightarrow>
               (case device_data (loaded_training_df st) room appl of
                  [] \<Rightarrow> Inr None
                | ir # _ \<Rightarrow> (case details_of g clk ir of Inl e \<Rightarrow> Inl e | Inr d \<Rightarrow> Inr (Some d))))"

section \<open>The aggregation operations\<close>

definition to_lower :: "char \<Rightarrow> char" where
  "to_lower c = (if in_range CHR ''A'' CHR ''Z'' c then char_of (of_char c + (32 :: nat)) else c)"

definition lower :: "string \<Rightarrow> string" where
  "lower s = map to_lower s"

fun starts_with :: "string \<Rightarrow> string \<Rightarrow> bool" where
  "starts_with [] s = True"
| "starts_with (p # ps) [] = False"
| "starts_with (p # ps) (c # cs) = (p = c \<and> starts_with ps cs)"

fun contains :: "string \<Rightarrow> string \<Rightarrow> bool" where
  "contains sub [] = (sub = [])"
| "contains sub (c # cs) = (starts_with sub (c # cs) \<or> contains sub cs)"

text \<open>\<^verbatim>\<open>Status.astype(str).str.contains('Working', case=False)\<close>\<close>

definition is_running :: "device_record \<Rightarrow> bool" where
  "is_running row = contains ''working'' (lower (py_str (status row)))"

text \<open>
  One row of the dashboard loop. The prediction is made outside the \<^verbatim>\<open>try\<close>; inside it
  only \<^verbatim>\<open>ValueError\<close> and \<^verbatim>\<open>TypeError\<close> are caught, so the overflow of the date leaves
  the loop. The row is pending when its next date is not after today.
\<close>

definition dashboard_row :: "regressor \<Rightarrow> clock \<Rightarrow> nat \<times> device_record \<Rightarrow> pending_entry option result" where
  "dashboard_row g clk ir =
     (let row = snd ir
      in case predicted_days_since g row of
           Inl e \<Rightarrow> Inl e
         | Inr days \<Rightarrow>
             (case next_date (parse_str (last_maintenance_date row)) days of
                Inl e \<Rightarrow> Inl e
              | Inr None \<Rightarrow> Inr None
              | Inr (Some next_maint_date_obj) \<Rightarrow>
                  if next_maint_date_obj \<le> today clk
                  then Inr (Some \<lparr>pending_room_no = room_number row,
                                  pending_device_id = int (fst ir) + 1,
                                  pending_device_name = appliance_type row,
                                  maintenance_date = next_maint_date_obj\<rparr>)
                  else Inr None))"

text \<open>
  \<^verbatim>\<open>get_dashboard_insights\<close>. The counter \<^verbatim>\<open>due_maintenance_count\<close> goes up exactly when
  an entry is appended, so it is the length of the pending list. The last step reads
  \<^verbatim>\<open>self.loaded_file_path\<close>, which is an \<^verbatim>\<open>AttributeError\<close> while the attribute is not there.
\<close>

definition get_dashboard_insights :: "model_state \<Rightarrow> clock \<Rightarrow> dashboard result" where
  "get_dashboard_insights st clk =
     (case hotel_model st of
        None \<Rightarrow> Inr (Not_loaded ''Model or training data not loaded.'')
      | Some g \<Rightarrow>
          if loaded_training_df st = [] then Inr (Not_loaded ''Model or training data not loaded.'')
          else
            (let df = loaded_training_df st;
                 total = length (drop_duplicates (\<lambda>row. (room_number row, appliance_type row)) df);
                 running_devices = int (length (filter is_running df));
                 down_devices = int (length df) - running_devices
             in case collect (dashboard_row g clk) (indexed df) of
                  Inl e \<Rightarrow> Inl e
                | Inr pending_maintenance_list \<Rightarrow>
                    (let due_maintenance_count = int (length pending_maintenance_list)
                     in case loaded_file_path st of
                          None \<Rightarrow> Inl AttributeError
                        | Some file \<Rightarrow>
                            Inr (Dashboard
                              \<lparr>total_devices = total,
                               running = running_devices,
                               down = down_devices,
                               due_maintenance = due_maintenance_count,
                               under_maintenance = max 0 (down_devices - due_maintenance_count),
                               Pending_maintenance = pending_maintenance_list,
                               loaded_data_file = file\<rparr>))))"

text \<open>
  The entry that the upcoming and the weekly view build for a row. The weekly view
  passes the status cell through as it is.
\<close>

definition view_entry ::
  "clock \<Rightarrow> nat \<times> device_record \<Rightarrow> string option \<Rightarrow> date option \<Rightarrow> real \<Rightarrow> int \<Rightarrow> device_prediction" where
  "view_entry clk ir issue parsed days next_maint =
     \<lparr>room_no = room_number (snd ir),
      device_id = int (fst ir) + 1,
      device_name = appliance_type (snd ir),
      issue_reported = issue,
      device_year_str = map_option py_int (device_year (snd ir)),
      under_warranty = warranty_flag ''yes'' ''no'' (current_year clk) (warranty_year (snd ir)),
      warranty_year_till = warranty_year (snd ir),
      previous_maintenance_date = map_option toordinal parsed,
      next_maintenance_date = Some next_maint,
      predictedDaysSinceMaintenance = round2 days\<rparr>"

text \<open>
  One row of \<^verbatim>\<open>get_upcoming_maintenance_devices\<close>: the cell goes to \<^verbatim>\<open>strptime\<close> unconverted,
  and the row is listed when \<^verbatim>\<open>today < next <= today + 182 days\<close>.
\<close>

definition upcoming_row ::
  "regressor \<Rightarrow> clock \<Rightarrow> int \<Rightarrow> nat \<times> device_record \<Rightarrow> device_prediction option result" where
  "upcoming_row g clk six_months_from_now ir =
     (let row = snd ir
      in case predicted_days_since g row of
           Inl e \<Rightarrow> Inl e
         | Inr days \<Rightarrow>
             (case parse_raw (last_maintenance_date row) of
                Inl e \<Rightarrow> Inl e
              | Inr parsed_date \<Rightarrow>
                  (case next_date parsed_date days of
                     Inl e \<Rightarrow> Inl e
                   | Inr None \<Rightarrow> Inr None
                   | Inr (Some next_maint_date_obj) \<Rightarrow>
                       if today clk < next_maint_date_obj \<and> next_maint_date_obj \<le> six_months_from_now
                       then Inr (Some (view_entry clk ir (status_or_None (status row))
                                         parsed_date days next_maint_date_obj))
                       else Inr None)))"

definition get_upcoming_maintenance_devices :: "model_state \<Rightarrow> clock \<Rightarrow> device_prediction list result" where
  "get_upcoming_maintenance_devices st clk =
     (case hotel_model st of
        None \<Rightarrow> Inl (RuntimeError ''Model or training data not loaded.'')
      | Some g \<Rightarrow>
          if loaded_training_df st = [] then Inl (RuntimeError ''Model or training data not loaded.'')
          else if max_ordinal < today clk + 182 then Inl OverflowError
          else collect (upcoming_row g clk (today clk + 182)) (indexed (loaded_training_df st)))"

text \<open>
  \<^verbatim>\<open>get_current_week_maintenance_devices\<close>. \<^verbatim>\<open>weekday()\<close> is 0 on a Monday, and ordinal 1
  is a Monday. A row with a missing feature is skipped before the prediction, a row whose
  date does not parse is skipped after it, and the row is listed when its next date lies
  between the Monday and the Sunday of the current week.
\<close>

definition weekday :: "int \<Rightarrow> int" where
  "weekday n = (n + 6) mod 7"

definition start_of_current_week :: "clock \<Rightarrow> int" where
  "start_of_current_week clk = today clk - weekday (today clk)"

definition end_of_current_week :: "clock \<Rightarrow> int" where
  "end_of_current_week clk = start_of_current_week clk + 6"

definition has_features :: "device_record \<Rightarrow> bool" where
  "has_features row =
     (usage_hours row \<noteq> None \<and> average_daily_usage row \<noteq> None \<and> device_year row \<noteq> None)"

definition weekly_row :: "regressor \<Rightarrow> clock \<Rightarrow> nat \<times> device_record \<Rightarrow> device_prediction option result" where
  "weekly_row g clk ir =
     (let row = snd ir
      in if \<not> has_features row then Inr None
         else case predicted_days_since g row of
                Inl e \<Rightarrow> Inl e
              | Inr days \<Rightarrow>
                  (let parsed_date = parse_str (last_maintenance_date row)
                   in case next_date parsed_date days of
                        Inl e \<Rightarrow> Inl e
                      | Inr None \<Rightarrow> Inr None
                      | Inr (Some next_maint_date_obj) \<Rightarrow>
                          if start_of_current_week clk \<le> next_maint_date_obj
                             \<and> next_maint_date_obj \<le> end_of_current_week clk
                          then Inr (Some (view_entry clk ir (status row)
                                            parsed_date days next_maint_date_obj))
                          else Inr None))"

definition get_current_week_maintenance_devices :: "model_state \<Rightarrow> clock \<Rightarrow> device_prediction list result" where
  "get_current_week_maintenance_devices st clk =
     (case hotel_model st of
        None \<Rightarrow> Inl (RuntimeError ''Model or training data not loaded.'')
      | Some g \<Rightarrow>
          if loaded_training_df st = [] then Inl (RuntimeError ''Model or training data not loaded.'')
          else if max_ordinal < end_of_current_week clk then Inl OverflowError
          else collect (weekly_row g clk) (indexed (loaded_training_df st)))"

section \<open>Training and dataset selection\<close>

text \<open>
  An input table: its column names and its rows. The rows are read only after the
  check of the columns has passed, when every field of a row is there.
\<close>

record table =
  columns :: "string list"
  rows :: "device_record list"

fun join :: "string \<Rightarrow> string list \<Rightarrow> string" where
  "join sep [] = []"
| "join sep [x] = x"
| "join sep (x # y # ys) = x @ sep @ join sep (y # ys)"

definition features :: "string list" where
  "features = [''Usage Hours'', ''Average_Daily_Usage'', ''Device_Year'']"

definition target :: string where
  "target = ''Days Since Maintenance''"

definition required_lookup_cols :: "string list" where
  "required_lookup_cols =
     [''Room Number'', ''Appliance Type'', ''Last Maintenance Date'', ''Status'', ''Warranty Year'']"

definition missing_cols :: "string list \<Rightarrow> string list \<Rightarrow> string list" where
  "missing_cols required cols = filter (\<lambda>col. col \<notin> set cols) required"

definition fill_status :: "device_record \<Rightarrow> device_record" where
  "fill_status row = row\<lparr>status := Some (case status row of Some s \<Rightarrow> s | None \<Rightarrow> ''Unknown'')\<rparr>"

text \<open>
  \<^verbatim>\<open>train_model\<close>. The fit of the regressor is a parameter (it may refuse the data); the
  in-sample metrics are floating-point numbers and are left out, so the result is the
  new state of the object.
\<close>

definition train_model ::
  "(device_record list \<Rightarrow> regressor result) \<Rightarrow> model_state \<Rightarrow> table \<Rightarrow> model_state result" where
  "train_model fit st df =
     (let required = features @ [target] @ required_lookup_cols
      in if \<not> list_all (\<lambda>col. col \<in> set (columns df)) required
         then Inl (ValueError (''Missing required columns in CSV: ''
                                 @ join '', '' (missing_cols required (columns df))))
         else (let filled = map fill_status (rows df)
               in case fit filled of
                    Inl e \<Rightarrow> Inl e
                  | Inr g \<Rightarrow> Inr (st\<lparr>hotel_model := Some g, loaded_training_df := filled\<rparr>)))"

definition HOTEL_CSV_FILES :: "(string \<times> string) list" where
  "HOTEL_CSV_FILES =
     [(''fairfield'', ''FairField.csv''), (''jwmarriott'', ''JW Marriott.csv''),
      (''westin'', ''Westin.csv'')]"

definition hotel_required_cols :: "string list" where
  "hotel_required_cols =
     [''Room Number'', ''Appliance Type'', ''Last Maintenance Date'', ''Usage Hours'',
      ''Days Since Maintenance'', ''Average_Daily_Usage'', ''Device_Year'', ''Status'',
      ''Warranty Year'']"

definition quoted :: "string \<Rightarrow> string" where
  "quoted s = [CHR 0x27] @ s @ [CHR 0x27]"

definition basename :: "string \<Rightarrow> string" where
  "basename path = rev (takeWhile (\<lambda>c. c \<noteq> CHR ''/'') (rev path))"

definition counts_as_working :: "device_record \<Rightarrow> bool" where
  "counts_as_working row =
     (lower (py_str (status row)) \<in> set [''working'', ''none''] \<or> status row = None)"

text \<open>
  \<^verbatim>\<open>load_hotel_data\<close>. The files on disk are a map from a path to the table that
  \<^verbatim>\<open>read_csv\<close> gives. The check of the columns runs inside the \<^verbatim>\<open>try\<close> whose handler turns
  every exception into a plain \<^verbatim>\<open>Exception\<close> around the text of the first.
\<close>

definition load_hotel_data ::
  "model_state \<Rightarrow> (string \<Rightarrow> table option) \<Rightarrow> string \<Rightarrow> (model_state \<times> nat \<times> nat \<times> string) result" where
  "load_hotel_data st files hotel_name =
     (case map_of HOTEL_CSV_FILES (lower hotel_name) of
        None \<Rightarrow> Inl (ValueError (''Invalid hotel_name: '' @ quoted hotel_name
                                   @ ''. Please choose from: '' @ join '', '' (map fst HOTEL_CSV_FILES)))
      | Some csv_file_path \<Rightarrow>
          (case files csv_file_path of
             None \<Rightarrow> Inl (FileNotFoundError (''The CSV file for '' @ hotel_name @ '' (''
                                               @ quoted csv_file_path @ '') does not exist.''))
           | Some df \<Rightarrow>
               if \<not> list_all (\<lambda>col. col \<in> set (columns df)) hotel_required_cols
               then Inl (Exception (''Error loading data for hotel '' @ quoted hotel_name
                                      @ '' from '' @ quoted csv_file_path @ '': ''
                                      @ ''Missing required columns in '' @ quoted csv_file_path
                                      @ '': '' @ join '', '' (missing_cols hotel_required_cols (columns df))))
               else Inr (st\<lparr>loaded_training_df := rows df,
                             loaded_file_path := Some (basename csv_file_path)\<rparr>,
                         length (rows df),
                         length (filter counts_as_working (rows df)),
                         csv_file_path)))"

section \<open>Example data\<close>

text \<open>A small data set, a constant regressor and a clock, used to run the operations.\<close>

definition example_row :: "int \<Rightarrow> string \<Rightarrow> string option \<Rightarrow> device_record" where
  "example_row room appl date_cell =
     \<lparr>room_number = room, appliance_type = appl, last_maintenance_date = date_cell,
      usage_hours = Some 500, average_daily_usage = Some 2, device_year = Some 2020,
      status = Some ''Working'', warranty_year = Some 2025\<rparr>"

definition example_df :: "device_record list" where
  "example_df =
     [example_row 101 ''TV'' (Some ''01/05/2023''),
      example_row 101 ''TV'' (Some ''soon''),
      example_row 101 ''TV'' (Some ''2024-02-01''),
      example_row 101 ''AC'' (Some ''unknown''),
      example_row 102 ''TV'' (Some ''03/04/2024'')]"

definition example_state :: model_state where
  "example_state =
     \<lparr>hotel_model = Some (\<lambda>u a y. 10), loaded_training_df = example_df,
      loaded_file_path = Some ''Westin.csv''\<rparr>"

definition example_clock :: clock where
  "example_clock = \<lparr>today = 738959, current_year = 2024\<rparr>"

text \<open>What \<^verbatim>\<open>predict_for_room\<close> returns for room 101 of the example.\<close>

definition example_room_result :: "device_prediction list" where
  "example_room_result =
     [\<lparr>room_no = 101, device_id = 3, device_name = ''TV'',
         issue_reported = Some ''Working'', device_year_str = Some 2020,
         under_warranty = ''yes'', warranty_year_till = Some 2025,
         previous_maintenance_date = Some 738917,
         next_maintenance_date = Some 738927,
         predictedDaysSinceMaintenance = 10\<rparr>,
      \<lparr>room_no = 101, device_id = 4, device_name = ''AC'',
         issue_reported = Some ''Working'', device_year_str = Some 2020,
         under_warranty = ''yes'', warranty_year_till = Some 2025,
         previous_maintenance_date = None, next_maintenance_date = None,
         predictedDaysSinceMaintenance = 10\<rparr>]"

text \<open>A regressor with a negative output, and the entry of room 102 under it.\<close>

definition negative_state :: model_state where
  "negative_state =
     \<lparr>hotel_model = Some (\<lambda>u a y. - 7 / 2), loaded_training_df = example_df,
      loaded_file_path = Some ''Westin.csv''\<rparr>"

definition negative_result :: "device_prediction list" where
  "negative_result =
     [\<lparr>room_no = 102, device_id = 5, device_name = ''TV'',
         issue_reported = Some ''Working'', device_year_str = Some 2020,
         under_warranty = ''yes'', warranty_year_till = Some 2025,
         previous_maintenance_date = Some 738949,
         next_maintenance_date = Some 738949,
         predictedDaysSinceMaintenance = 0\<rparr>]"

text \<open>What \<^verbatim>\<open>get_device_details\<close> returns for the television of room 101.\<close>

definition example_details :: device_info where
  "example_details =
     \<lparr>room_no = 101, device_id = 1, device_name = ''TV'',
      issue_reported = Some ''Working'', device_year_str = Some 2020,
      under_warranty = ''Yes'', warranty_year_till = Some 2025,
      previous_maintenance_date = Some 738525,
      next_maintenance_date = Some 738535\<rparr>"

text \<open>The example with one more historical row for a pair that is already there, and both dashboards.\<close>

definition example_state_more :: model_state where
  "example_state_more =
     example_state\<lparr>loaded_training_df := example_row 101 ''TV'' (Some ''12/12/2020'') # example_df\<rparr>"

definition example_dashboard :: dashboard_data where
  "example_dashboard =
     \<lparr>total_devices = 3, running = 5, down = 0, due_maintenance = 3,
      under_maintenance = 0,
      Pending_maintenance =
        [\<lparr>pending_room_no = 101, pending_device_id = 1,
            pending_device_name = ''TV'', maintenance_date = 738535\<rparr>,
         \<lparr>pending_room_no = 101, pending_device_id = 3,
            pending_device_name = ''TV'', maintenance_date = 738927\<rparr>,
         \<lparr>pending_room_no = 102, pending_device_id = 5,
            pending_device_name = ''TV'', maintenance_date = 738959\<rparr>],
      loaded_data_file = ''Westin.csv''\<rparr>"

definition example_dashboard_more :: dashboard_data where
  "example_dashboard_more =
     \<lparr>total_devices = 3, running = 6, down = 0, due_maintenance = 4,
      under_maintenance = 0,
      Pending_maintenance =
        [\<lparr>pending_room_no = 101, pending_device_id = 1,
            pending_device_name = ''TV'', maintenance_date = 737781\<rparr>,
         \<lparr>pending_room_no = 101, pending_device_id = 2,
            pending_device_name = ''TV'', maintenance_date = 738535\<rparr>,
         \<lparr>pending_room_no = 101, pending_device_id = 4,
            pending_device_name = ''TV'', maintenance_date = 738927\<rparr>,
         \<lparr>pending_room_no = 102, pending_device_id = 6,
            pending_device_name = ''TV'', maintenance_date = 738959\<rparr>],
      loaded_data_file = ''Westin.csv''\<rparr>"

text \<open>The example with a device that is due later, a clock on the Saturday of the same week, and the results of the three aggregation operations.\<close>

definition late_state :: model_state where
  "late_state =
     example_state\<lparr>loaded_training_df := example_df @ [example_row 103 ''Fridge'' (Some ''04/01/2024'')]\<rparr>"

definition week_clock :: clock where
  "week_clock = \<lparr>today = 738961, current_year = 2024\<rparr>"

definition late_dashboard :: dashboard_data where
  "late_dashboard =
     \<lparr>total_devices = 4, running = 6, down = 0, due_maintenance = 3,
      under_maintenance = 0,
      Pending_maintenance =
        [\<lparr>pending_room_no = 101, pending_device_id = 1,
            pending_device_name = ''TV'', maintenance_date = 738535\<rparr>,
         \<lparr>pending_room_no = 101, pending_device_id = 3,
            pending_device_name = ''TV'', maintenance_date = 738927\<rparr>,
         \<lparr>pending_room_no = 102, pending_device_id = 5,
            pending_device_name = ''TV'', maintenance_date = 738959\<rparr>],
      loaded_data_file = ''Westin.csv''\<rparr>"

definition late_upcoming :: "device_prediction list" where
  "late_upcoming =
     [\<lparr>room_no = 103, device_id = 6, device_name = ''Fridge'',
         issue_reported = Some ''Working'', device_year_str = Some 2020,
         under_warranty = ''yes'', warranty_year_till = Some 2025,
         previous_maintenance_date = Some 738977,
         next_maintenance_date = Some 738987,
         predictedDaysSinceMaintenance = 10\<rparr>]"

definition late_weekly :: "device_prediction list" where
  "late_weekly =
     [\<lparr>room_no = 102, device_id = 5, device_name = ''TV'',
         issue_reported = Some ''Working'', device_year_str = Some 2020,
         under_warranty = ''yes'', warranty_year_till = Some 2025,
         previous_maintenance_date = Some 738949,
         next_maintenance_date = Some 738959,
         predictedDaysSinceMaintenance = 10\<rparr>]"

definition due_row :: device_record where
  "due_row = example_row 102 ''TV'' (Some ''03/04/2024'')"

text \<open>A table without two of the required columns, as an upload and as a hotel file.\<close>

definition example_fit :: "device_record list \<Rightarrow> regressor result" where
  "example_fit rs = Inr (\<lambda>u a y. 10)"

definition short_table :: table where
  "short_table =
     \<lparr>columns = [''Device_Year'', ''Days Since Maintenance'', ''Room Number'', ''Appliance Type'',
                 ''Last Maintenance Date'', ''Status'', ''Warranty Year''],
      rows = []\<rparr>"

definition example_files :: "string \<Rightarrow> table option" where
  "example_files path = (if path = ''Westin.csv'' then Some short_table else None)"

text \<open>States in which no hotel file was ever selected.\<close>

definition unselected_state :: model_state where
  "unselected_state =
     \<lparr>hotel_model = Some (\<lambda>u a y. 10), loaded_training_df = example_df, loaded_file_path = None\<rparr>"

definition overflow_state :: model_state where
  "overflow_state =
     \<lparr>hotel_model = Some (\<lambda>u a y. 10),
      loaded_training_df = [example_row 2000 ''TV'' (Some ''12/31/9999'')],
      loaded_file_path = None\<rparr>"

section \<open>Auxiliary facts\<close>

lemma collect_mem:
  "collect f xs = Inr ys \<Longrightarrow> y \<in> set ys \<longleftrightarrow> (\<exists>x\<in>set xs. f x = Inr (Some y))"
  by (induction xs arbitrary: ys) (auto split: sum.splits option.splits)

lemma collect_total:
  "collect f xs = Inr ys \<Longrightarrow> x \<in> set xs \<Longrightarrow> \<exists>r. f x = Inr r"
  by (induction xs arbitrary: ys) (auto split: sum.splits option.splits)

lemma collect_map:
  "collect f xs = Inr ys \<Longrightarrow> (\<forall>x\<in>set xs. \<forall>r. f x = Inr r \<longrightarrow> r \<noteq> None)
     \<Longrightarrow> map Some ys = map (\<lambda>x. projr (f x)) xs"
  by (induction xs arbitrary: ys) (auto split: sum.splits option.splits)

lemma not_before_refl: "not_before a a"
  by (simp add: not_before_def split: option.splits)

lemma not_before_trans: "not_before a b \<Longrightarrow> not_before b c \<Longrightarrow> not_before a c"
  by (auto simp: not_before_def split: option.splits)

lemma not_before_total: "not_before a b \<or> not_before b a"
  by (auto simp: not_before_def split: option.splits)

lemma set_insert_desc: "set (insert_desc x ys) = insert x (set ys)"
  by (induction ys) auto

lemma set_sort_values_desc: "set (sort_values_desc xs) = set xs"
  by (induction xs) (auto simp: sort_values_desc_def set_insert_desc)

lemma sorted_insert_desc:
  "sorted_wrt (\<lambda>a b. not_before (parsed_of a) (parsed_of b)) ys
   \<Longrightarrow> sorted_wrt (\<lambda>a b. not_before (parsed_of a) (parsed_of b)) (insert_desc x ys)"
proof (induction ys)
  case Nil
  then show ?case by simp
next
  case (Cons y ys)
  show ?case
  proof (cases "not_before (parsed_of x) (parsed_of y)")
    case True
    with Cons.prems show ?thesis
      by (auto intro: not_before_trans)
  next
    case False
    then have "not_before (parsed_of y) (parsed_of x)"
      using not_before_total by blast
    with False Cons show ?thesis
      by (auto simp: set_insert_desc)
  qed
qed

lemma sorted_sort_values_desc:
  "sorted_wrt (\<lambda>a b. not_before (parsed_of a) (parsed_of b)) (sort_values_desc xs)"
proof (induction xs)
  case Nil
  show ?case by (simp add: sort_values_desc_def)
next
  case (Cons x xs)
  then show ?case
    using sorted_insert_desc [of "sort_values_desc xs" x]
    by (simp add: sort_values_desc_def)
qed

lemma drop_duplicates_from_subset:
  "x \<in> set (drop_duplicates_from seen k xs) \<Longrightarrow> x \<in> set xs \<and> k x \<notin> set seen"
proof (induction xs arbitrary: seen)
  case Nil
  then show ?case by simp
next
  case (Cons a xs)
  show ?case
  proof (cases "k a \<in> set seen")
    case True
    with Cons.prems Cons.IH [of seen] show ?thesis by simp
  next
    case False
    with Cons.prems Cons.IH [of "k a # seen"] show ?thesis by auto
  qed
qed

lemma drop_duplicates_from_keys:
  "k ` set (drop_duplicates_from seen k xs) = k ` set xs - set seen"
proof (induction xs arbitrary: seen)
  case Nil
  show ?case by simp
next
  case (Cons x xs)
  show ?case
  proof (cases "k x \<in> set seen")
    case True
    then show ?thesis using Cons.IH [of seen] by auto
  next
    case False
    then show ?thesis using Cons.IH [of "k x # seen"] by auto
  qed
qed

lemma drop_duplicates_from_distinct:
  "distinct (map k (drop_duplicates_from seen k xs))"
proof (induction xs arbitrary: seen)
  case Nil
  show ?case by simp
next
  case (Cons x xs)
  show ?case
  proof (cases "k x \<in> set seen")
    case True
    then show ?thesis using Cons.IH [of seen] by simp
  next
    case False
    have "k x \<notin> k ` set (drop_duplicates_from (k x # seen) k xs)"
      by (simp add: drop_duplicates_from_keys)
    with False show ?thesis using Cons.IH [of "k x # seen"] by simp
  qed
qed

lemma drop_duplicates_from_first:
  "sorted_wrt R xs \<Longrightarrow> (\<And>a. R a a) \<Longrightarrow> x \<in> set (drop_duplicates_from seen k xs)
   \<Longrightarrow> y \<in> set xs \<Longrightarrow> k y = k x \<Longrightarrow> R x y"
proof (induction xs arbitrary: seen)
  case Nil
  then show ?case by simp
next
  case (Cons a xs)
  from Cons.prems(3) have xk: "k x \<notin> set seen"
    using drop_duplicates_from_subset by fastforce
  from Cons.prems(1) have sx: "sorted_wrt R xs" and ax: "\<forall>z\<in>set xs. R a z" by simp_all
  show ?case
  proof (cases "k a \<in> set seen")
    case True
    with Cons.prems(3) have x: "x \<in> set (drop_duplicates_from seen k xs)" by simp
    from True xk Cons.prems(5) have "y \<noteq> a" by auto
    with Cons.prems(4) have "y \<in> set xs" by simp
    with Cons.IH [OF sx Cons.prems(2) x] Cons.prems(5) show ?thesis by simp
  next
    case False
    with Cons.prems(3) consider "x = a" | "x \<in> set (drop_duplicates_from (k a # seen) k xs)"
      by auto
    then show ?thesis
    proof cases
      case 1
      with Cons.prems(2,4) ax show ?thesis by auto
    next
      case 2
      then have "k x \<noteq> k a" using drop_duplicates_from_subset by fastforce
      with Cons.prems(4,5) have "y \<in> set xs" by auto
      with Cons.IH [OF sx Cons.prems(2) 2] Cons.prems(5) show ?thesis by simp
    qed
  qed
qed

lemma collect_list_all2:
  "collect f xs = Inr ys \<Longrightarrow> (\<And>x r. x \<in> set xs \<Longrightarrow> f x = Inr r \<Longrightarrow> \<exists>y. r = Some y \<and> P x y)
   \<Longrightarrow> list_all2 P xs ys"
proof (induction xs arbitrary: ys)
  case Nil
  then show ?case by simp
next
  case (Cons x xs)
  from Cons.prems(1) obtain r zs where r: "f x = Inr r" and zs: "collect f xs = Inr zs"
    and ys: "ys = (case r of None \<Rightarrow> zs | Some y \<Rightarrow> y # zs)"
    by (auto split: sum.splits)
  from Cons.prems(2) [of x r] r obtain y where y: "r = Some y" "P x y" by auto
  have "list_all2 P xs zs"
    using Cons.IH [OF zs] Cons.prems(2) by simp
  with y ys show ?case by simp
qed

lemma py_round_nonneg: "0 \<le> x \<Longrightarrow> 0 \<le> py_round x"
  by (simp add: py_round_def Let_def)

lemma round2_nonneg: "0 \<le> x \<Longrightarrow> 0 \<le> round2 x"
  by (simp add: round2_def py_round_nonneg)

lemma resolve_set:
  "pr \<in> set (resolve_room_devices df room)
   \<Longrightarrow> (fst pr, row_of pr) \<in> set (room_devices df room)
       \<and> parsed_of pr = parse_date (last_maintenance_date (row_of pr))"
  unfolding resolve_room_devices_def drop_duplicates_def
  by (auto dest!: drop_duplicates_from_subset simp: set_sort_values_desc row_of_def parsed_of_def)

lemma resolve_distinct:
  "distinct (map (\<lambda>pr. appliance_type (row_of pr)) (resolve_room_devices df room))"
  unfolding resolve_room_devices_def drop_duplicates_def
  by (rule drop_duplicates_from_distinct)

lemma resolve_types:
  "(\<lambda>pr. appliance_type (row_of pr)) ` set (resolve_room_devices df room)
   = (\<lambda>ir. appliance_type (snd ir)) ` set (room_devices df room)"
proof -
  let ?xs = "map (\<lambda>ir. (fst ir, snd ir, parse_date (last_maintenance_date (snd ir)))) (room_devices df room)"
  have "(\<lambda>pr. appliance_type (row_of pr)) ` set (resolve_room_devices df room)
        = (\<lambda>pr. appliance_type (row_of pr)) ` set ?xs"
    by (simp add: resolve_room_devices_def drop_duplicates_def drop_duplicates_from_keys
                  set_sort_values_desc)
  also have "\<dots> = (\<lambda>ir. appliance_type (snd ir)) ` set (room_devices df room)"
    by (simp add: image_image row_of_def)
  finally show ?thesis .
qed

lemma resolve_latest:
  assumes "pr \<in> set (resolve_room_devices df room)"
    and "ir \<in> set (room_devices df room)"
    and "appliance_type (snd ir) = appliance_type (row_of pr)"
  shows "not_before (parsed_of pr) (parse_date (last_maintenance_date (snd ir)))"
proof -
  let ?xs = "map (\<lambda>ir. (fst ir, snd ir, parse_date (last_maintenance_date (snd ir)))) (room_devices df room)"
  let ?y = "(fst ir, snd ir, parse_date (last_maintenance_date (snd ir)))"
  have y: "?y \<in> set (sort_values_desc ?xs)"
    using assms(2) by (simp add: set_sort_values_desc)
  have k: "appliance_type (row_of ?y) = appliance_type (row_of pr)"
    using assms(3) by (simp add: row_of_def)
  have x: "pr \<in> set (drop_duplicates_from [] (\<lambda>pr. appliance_type (row_of pr)) (sort_values_desc ?xs))"
    using assms(1) by (simp add: resolve_room_devices_def drop_duplicates_def)
  have "not_before (parsed_of pr) (parsed_of ?y)"
    by (rule drop_duplicates_from_first
          [where R = "\<lambda>a b. not_before (parsed_of a) (parsed_of b)", OF sorted_sort_values_desc _ x y k])
       (rule not_before_refl)
  then show ?thesis by (simp add: parsed_of_def)
qed

lemma room_entry_fields:
  "room_entry g clk pr = Inr r
   \<Longrightarrow> \<exists>e. r = Some e \<and> device_name e = appliance_type (row_of pr)
          \<and> device_id e = int (fst pr) + 1
          \<and> room_no e = room_number (row_of pr)
          \<and> previous_maintenance_date e = map_option toordinal (parsed_of pr)
          \<and> under_warranty e = warranty_flag ''yes'' ''no'' (current_year clk) (warranty_year (row_of pr))
          \<and> 0 \<le> predictedDaysSinceMaintenance e"
proof -
  assume a: "room_entry g clk pr = Inr r"
  then obtain p where p: "model_predict g (row_of pr) = Inr p"
    by (auto simp: room_entry_def predicted_days_since_def Let_def split: sum.splits)
  have "0 \<le> round2 (max 0 p)" by (rule round2_nonneg) simp
  with a p show ?thesis
    by (auto simp: room_entry_def predicted_days_since_def Let_def split: sum.splits)
qed

lemma list_all2_right_mem:
  "list_all2 P xs ys \<Longrightarrow> y \<in> set ys \<Longrightarrow> \<exists>x\<in>set xs. P x y"
  by (induction rule: list_all2_induct) auto

lemma indexed_unique:
  "(i, r) \<in> set (indexed df) \<Longrightarrow> (i, r') \<in> set (indexed df) \<Longrightarrow> r = r'"
proof -
  have "distinct (map fst (indexed df))"
    by (simp add: indexed_def)
  then show "(i, r) \<in> set (indexed df) \<Longrightarrow> (i, r') \<in> set (indexed df) \<Longrightarrow> r = r'"
    by (rule eq_key_imp_eq_value)
qed

text \<open>
  The order among rows of equal date plays no part in what is kept: for every
  arrangement \<open>ys\<close> of the rows \<open>xs\<close> that is sorted by date, later first and missing dates
  last, dropping the duplicates keeps one row of each appliance type, and a kept row is
  dated no earlier than any row of its type.
\<close>

lemma kept_rows_for_any_tie_order:
  assumes "set ys = set xs"
    and "sorted_wrt (\<lambda>a b. not_before (parsed_of a) (parsed_of b)) ys"
  shows "distinct (map (\<lambda>pr. appliance_type (row_of pr))
                     (drop_duplicates (\<lambda>pr. appliance_type (row_of pr)) ys))"
    and "(\<lambda>pr. appliance_type (row_of pr)) ` set (drop_duplicates (\<lambda>pr. appliance_type (row_of pr)) ys)
           = (\<lambda>pr. appliance_type (row_of pr)) ` set xs"
    and "pr \<in> set (drop_duplicates (\<lambda>pr. appliance_type (row_of pr)) ys) \<Longrightarrow> pr \<in> set xs"
    and "pr \<in> set (drop_duplicates (\<lambda>pr. appliance_type (row_of pr)) ys) \<Longrightarrow> y \<in> set xs
           \<Longrightarrow> appliance_type (row_of y) = appliance_type (row_of pr)
           \<Longrightarrow> not_before (parsed_of pr) (parsed_of y)"
proof -
  show "distinct (map (\<lambda>pr. appliance_type (row_of pr))
                     (drop_duplicates (\<lambda>pr. appliance_type (row_of pr)) ys))"
    unfolding drop_duplicates_def by (rule drop_duplicates_from_distinct)
  show "(\<lambda>pr. appliance_type (row_of pr)) ` set (drop_duplicates (\<lambda>pr. appliance_type (row_of pr)) ys)
           = (\<lambda>pr. appliance_type (row_of pr)) ` set xs"
    using assms(1) by (simp add: drop_duplicates_def drop_duplicates_from_keys)
  show "pr \<in> set xs" if "pr \<in> set (drop_duplicates (\<lambda>pr. appliance_type (row_of pr)) ys)"
    using that assms(1) drop_duplicates_from_subset [of pr "[]" _ ys]
    by (simp add: drop_duplicates_def)
  show "not_before (parsed_of pr) (parsed_of y)"
    if x: "pr \<in> set (drop_duplicates (\<lambda>pr. appliance_type (row_of pr)) ys)"
      and y: "y \<in> set xs"
      and k: "appliance_type (row_of y) = appliance_type (row_of pr)"
  proof -
    from x have x': "pr \<in> set (drop_duplicates_from [] (\<lambda>pr. appliance_type (row_of pr)) ys)"
      by (simp add: drop_duplicates_def)
    from y assms(1) have y': "y \<in> set ys" by simp
    show ?thesis
      by (rule drop_duplicates_from_first
            [where R = "\<lambda>a b. not_before (parsed_of a) (parsed_of b)", OF assms(2) _ x' y' k])
         (rule not_before_refl)
  qed
qed

section \<open>The date parser tries the formats in order\<close>

lemma first_some_index:
  "i < length xs \<Longrightarrow> f (xs ! i) = Some d \<Longrightarrow> (\<forall>j<i. f (xs ! j) = None) \<Longrightarrow> first_some f xs = Some d"
proof (induction xs arbitrary: i)
  case Nil
  then show ?case by simp
next
  case (Cons x xs)
  show ?case
  proof (cases i)
    case 0
    with Cons.prems show ?thesis by simp
  next
    case (Suc k)
    from Cons.prems Suc have x: "f x = None" by auto
    from Cons.prems Suc have "\<forall>j<k. f (xs ! j) = None" by auto
    with Cons.IH [of k] Cons.prems Suc have "first_some f xs = Some d" by simp
    with x show ?thesis by simp
  qed
qed

lemma first_some_None: "first_some f xs = None \<longleftrightarrow> (\<forall>x\<in>set xs. f x = None)"
  by (induction xs) (auto split: option.splits)

lemma strptime_month_first:
  "strptime ''03/04/2024'' ''%m/%d/%Y'' = Some \<lparr>year = 2024, month = 3, day = 4\<rparr>"
  by code_simp

lemma strptime_day_first:
  "strptime ''13/04/2024'' ''%m/%d/%Y'' = None"
  "strptime ''13/04/2024'' ''%m/%d/%y'' = None"
  "strptime ''13/04/2024'' ''%Y-%m-%d'' = None"
  "strptime ''13/04/2024'' ''%d-%m-%Y'' = None"
  "strptime ''13/04/2024'' ''%d/%m/%Y'' = Some \<lparr>year = 2024, month = 4, day = 13\<rparr>"
  by code_simp+

lemma strptime_nan: "\<forall>fmt\<in>set date_formats. strptime ''nan'' fmt = None"
  unfolding date_formats_def by code_simp

text \<open>
  Claim C2. The parser tries the six formats month/day/year (four digits), month/day/year
  (two digits), year-month-day, day-month-year with dashes, day/month/year (four digits)
  and day/month/year (two digits) in this order and returns the parse of the first one
  that succeeds; so \<^verbatim>\<open>03/04/2024\<close> is the fourth of March. A string that no format
  parses gives the "no date" value, and no string makes either parser raise.
\<close>

theorem date_parser_format_order:
  "date_formats = [''%m/%d/%Y'', ''%m/%d/%y'', ''%Y-%m-%d'', ''%d-%m-%Y'', ''%d/%m/%Y'', ''%d/%m/%y'']
   \<and> (i < length date_formats \<longrightarrow> strptime s (date_formats ! i) = Some d
        \<longrightarrow> (\<forall>j<i. strptime s (date_formats ! j) = None)
        \<longrightarrow> parse_date (Some s) = Some d \<and> parse_raw (Some s) = Inr (Some d))
   \<and> parse_date (Some ''03/04/2024'') = Some \<lparr>year = 2024, month = 3, day = 4\<rparr>
   \<and> parse_raw (Some ''03/04/2024'') = Inr (Some \<lparr>year = 2024, month = 3, day = 4\<rparr>)
   \<and> ((\<forall>fmt\<in>set date_formats. strptime s fmt = None)
        \<longrightarrow> parse_date (Some s) = None \<and> parse_raw (Some s) = Inr None)
   \<and> (\<exists>r. parse_raw (Some s) = Inr r)"
proof -
  have a: "date_formats = [''%m/%d/%Y'', ''%m/%d/%y'', ''%Y-%m-%d'', ''%d-%m-%Y'', ''%d/%m/%Y'', ''%d/%m/%y'']"
    by (simp add: date_formats_def)
  have b: "i < length date_formats \<longrightarrow> strptime s (date_formats ! i) = Some d
        \<longrightarrow> (\<forall>j<i. strptime s (date_formats ! j) = None)
        \<longrightarrow> parse_date (Some s) = Some d \<and> parse_raw (Some s) = Inr (Some d)"
    using first_some_index [of i date_formats "strptime s" d]
    by (simp add: parse_date_def parse_raw_def try_formats_def py_str_def)
  have "first_some (strptime ''03/04/2024'') date_formats = Some \<lparr>year = 2024, month = 3, day = 4\<rparr>"
    unfolding a using strptime_month_first by simp
  then have c: "parse_date (Some ''03/04/2024'') = Some \<lparr>year = 2024, month = 3, day = 4\<rparr>"
    and c': "parse_raw (Some ''03/04/2024'') = Inr (Some \<lparr>year = 2024, month = 3, day = 4\<rparr>)"
    by (simp_all add: parse_date_def parse_raw_def try_formats_def py_str_def)
  have e: "(\<forall>fmt\<in>set date_formats. strptime s fmt = None)
        \<longrightarrow> parse_date (Some s) = None \<and> parse_raw (Some s) = Inr None"
    by (simp add: parse_date_def parse_raw_def try_formats_def py_str_def first_some_None)
  have f: "\<exists>r. parse_raw (Some s) = Inr r"
    by (simp add: parse_raw_def)
  from a b c c' e f show ?thesis by blast
qed

theorem date_parser_format_order_witness:
  "parse_date (Some ''13/04/2024'') = Some \<lparr>year = 2024, month = 4, day = 13\<rparr>
   \<and> parse_raw (Some ''13/04/2024'') = Inr (Some \<lparr>year = 2024, month = 4, day = 13\<rparr>)
   \<and> parse_date (Some ''nan'') = None \<and> parse_raw (Some ''nan'') = Inr None"
proof -
  have len: "(4::nat) < length date_formats" by (simp add: date_formats_def)
  have hit: "strptime ''13/04/2024'' (date_formats ! 4) = Some \<lparr>year = 2024, month = 4, day = 13\<rparr>"
    by (simp add: date_formats_def strptime_day_first)
  have miss: "\<forall>j<4. strptime ''13/04/2024'' (date_formats ! j) = None"
  proof (intro allI impI)
    fix j :: nat
    assume "j < 4"
    then consider "j = 0" | "j = 1" | "j = 2" | "j = 3" by linarith
    then show "strptime ''13/04/2024'' (date_formats ! j) = None"
      by cases (simp_all add: date_formats_def strptime_day_first)
  qed
  from len hit miss
    date_parser_format_order [where i = 4 and s = "''13/04/2024''"
                                and d = "\<lparr>year = 2024, month = 4, day = 13\<rparr>"]
  have one: "parse_date (Some ''13/04/2024'') = Some \<lparr>year = 2024, month = 4, day = 13\<rparr>
     \<and> parse_raw (Some ''13/04/2024'') = Inr (Some \<lparr>year = 2024, month = 4, day = 13\<rparr>)"
    by blast
  from strptime_nan date_parser_format_order [where s = "''nan''"]
  have two: "parse_date (Some ''nan'') = None \<and> parse_raw (Some ''nan'') = Inr None"
    by blast
  from one two show ?thesis by blast
qed

section \<open>One entry per appliance type\<close>

lemma predict_for_room_result:
  assumes "predict_for_room st clk room = Inr res"
  shows "map device_name res
         = map (\<lambda>pr. appliance_type (row_of pr)) (resolve_room_devices (loaded_training_df st) room)
     \<and> distinct (map device_name res)
     \<and> set (map device_name res)
         = (\<lambda>ir. appliance_type (snd ir)) ` set (room_devices (loaded_training_df st) room)
     \<and> (\<forall>e\<in>set res. \<exists>ir\<in>set (room_devices (loaded_training_df st) room).
           device_id e = int (fst ir) + 1 \<and> device_name e = appliance_type (snd ir)
           \<and> previous_maintenance_date e
               = map_option toordinal (parse_date (last_maintenance_date (snd ir)))
           \<and> (\<forall>ir'\<in>set (room_devices (loaded_training_df st) room).
                 appliance_type (snd ir') = device_name e \<longrightarrow>
                 (\<forall>d'. parse_date (last_maintenance_date (snd ir')) = Some d' \<longrightarrow>
                    (\<exists>d. parse_date (last_maintenance_date (snd ir)) = Some d
                         \<and> toordinal d' \<le> toordinal d))))"
proof (cases "room_devices (loaded_training_df st) room = []")
  case True
  with assms have "res = []"
    by (auto simp: predict_for_room_def split: option.splits if_splits)
  with True show ?thesis
    by (simp add: resolve_room_devices_def drop_duplicates_def sort_values_desc_def)
next
  case False
  let ?df = "loaded_training_df st"
  let ?kept = "resolve_room_devices ?df room"
  let ?P = "\<lambda>pr e. device_name e = appliance_type (row_of pr) \<and> device_id e = int (fst pr) + 1
                  \<and> previous_maintenance_date e = map_option toordinal (parsed_of pr)"
  from assms False obtain g where c: "collect (room_entry g clk) ?kept = Inr res"
    by (auto simp: predict_for_room_def split: option.splits if_splits)
  have rel: "list_all2 ?P ?kept res"
  proof (rule collect_list_all2 [OF c])
    fix x r
    assume "room_entry g clk x = Inr r"
    from room_entry_fields [OF this] show "\<exists>y. r = Some y \<and> ?P x y" by blast
  qed
  have names: "map device_name res = map (\<lambda>pr. appliance_type (row_of pr)) ?kept"
    using rel by (induction rule: list_all2_induct) simp_all
  have one: "distinct (map device_name res)"
    using names resolve_distinct [of ?df room] by simp
  have two: "set (map device_name res) = (\<lambda>ir. appliance_type (snd ir)) ` set (room_devices ?df room)"
    using names resolve_types [of ?df room] by simp
  have three: "\<exists>ir\<in>set (room_devices ?df room).
           device_id e = int (fst ir) + 1 \<and> device_name e = appliance_type (snd ir)
           \<and> previous_maintenance_date e
               = map_option toordinal (parse_date (last_maintenance_date (snd ir)))
           \<and> (\<forall>ir'\<in>set (room_devices ?df room).
                 appliance_type (snd ir') = device_name e \<longrightarrow>
                 (\<forall>d'. parse_date (last_maintenance_date (snd ir')) = Some d' \<longrightarrow>
                    (\<exists>d. parse_date (last_maintenance_date (snd ir)) = Some d
                         \<and> toordinal d' \<le> toordinal d)))" if e: "e \<in> set res" for e
  proof -
    from list_all2_right_mem [OF rel e] obtain pr where pr: "pr \<in> set ?kept" and P: "?P pr e"
      by blast
    from resolve_set [OF pr] have mem: "(fst pr, row_of pr) \<in> set (room_devices ?df room)"
      and par: "parsed_of pr = parse_date (last_maintenance_date (row_of pr))" by simp_all
    have late: "\<exists>d. parse_date (last_maintenance_date (row_of pr)) = Some d \<and> toordinal d' \<le> toordinal d"
      if "ir' \<in> set (room_devices ?df room)" "appliance_type (snd ir') = device_name e"
         "parse_date (last_maintenance_date (snd ir')) = Some d'" for ir' d'
    proof -
      from that(2) P have "appliance_type (snd ir') = appliance_type (row_of pr)" by simp
      from resolve_latest [OF pr that(1) this] that(3) par show ?thesis
        by (auto simp: not_before_def split: option.splits)
    qed
    show ?thesis
      by (rule bexI [OF _ mem]) (use P par late in auto)
  qed
  from names one two three show ?thesis by blast
qed

text \<open>
  Claim C1. The rows that \<^verbatim>\<open>predict_for_room\<close> keeps for a room are one row for each
  appliance type that occurs among the rows of the room, and the kept row of a type is
  one whose parsed date is the latest: every other row of the type that parses is dated
  no later, so a row without a parsed date is kept only where no row of the type parses.
  Whenever the operation returns, its list has one entry for each kept row, in the same
  order, so exactly one entry for each appliance type of the room.
\<close>

theorem predict_for_room_one_entry_per_type:
  "distinct (map (\<lambda>pr. appliance_type (row_of pr)) (resolve_room_devices df room))
   \<and> (\<lambda>pr. appliance_type (row_of pr)) ` set (resolve_room_devices df room)
       = (\<lambda>ir. appliance_type (snd ir)) ` set (room_devices df room)
   \<and> (\<forall>pr\<in>set (resolve_room_devices df room).
         (fst pr, row_of pr) \<in> set (room_devices df room)
         \<and> parsed_of pr = parse_date (last_maintenance_date (row_of pr))
         \<and> (\<forall>ir'\<in>set (room_devices df room).
               appliance_type (snd ir') = appliance_type (row_of pr) \<longrightarrow>
               (\<forall>d'. parse_date (last_maintenance_date (snd ir')) = Some d' \<longrightarrow>
                  (\<exists>d. parsed_of pr = Some d \<and> toordinal d' \<le> toordinal d))))
   \<and> (loaded_training_df st = df \<longrightarrow> predict_for_room st clk room = Inr res \<longrightarrow>
         map device_name res = map (\<lambda>pr. appliance_type (row_of pr)) (resolve_room_devices df room)
         \<and> distinct (map device_name res)
         \<and> set (map device_name res) = (\<lambda>ir. appliance_type (snd ir)) ` set (room_devices df room)
         \<and> (\<forall>e\<in>set res. \<exists>ir\<in>set (room_devices df room).
               device_id e = int (fst ir) + 1 \<and> device_name e = appliance_type (snd ir)
               \<and> previous_maintenance_date e
                   = map_option toordinal (parse_date (last_maintenance_date (snd ir)))
               \<and> (\<forall>ir'\<in>set (room_devices df room).
                     appliance_type (snd ir') = device_name e \<longrightarrow>
                     (\<forall>d'. parse_date (last_maintenance_date (snd ir')) = Some d' \<longrightarrow>
                        (\<exists>d. parse_date (last_maintenance_date (snd ir)) = Some d
                             \<and> toordinal d' \<le> toordinal d)))))"
proof -
  have a: "distinct (map (\<lambda>pr. appliance_type (row_of pr)) (resolve_room_devices df room))"
    by (rule resolve_distinct)
  have b: "(\<lambda>pr. appliance_type (row_of pr)) ` set (resolve_room_devices df room)
       = (\<lambda>ir. appliance_type (snd ir)) ` set (room_devices df room)"
    by (rule resolve_types)
  have c: "(fst pr, row_of pr) \<in> set (room_devices df room)
         \<and> parsed_of pr = parse_date (last_maintenance_date (row_of pr))
         \<and> (\<forall>ir'\<in>set (room_devices df room).
               appliance_type (snd ir') = appliance_type (row_of pr) \<longrightarrow>
               (\<forall>d'. parse_date (last_maintenance_date (snd ir')) = Some d' \<longrightarrow>
                  (\<exists>d. parsed_of pr = Some d \<and> toordinal d' \<le> toordinal d)))"
    if pr: "pr \<in> set (resolve_room_devices df room)" for pr
  proof -
    have "\<exists>d. parsed_of pr = Some d \<and> toordinal d' \<le> toordinal d"
      if "ir' \<in> set (room_devices df room)"
        "appliance_type (snd ir') = appliance_type (row_of pr)"
        "parse_date (last_maintenance_date (snd ir')) = Some d'" for ir' d'
      using resolve_latest [OF pr that(1,2)] that(3)
      by (auto simp: not_before_def split: option.splits)
    with resolve_set [OF pr] show ?thesis by blast
  qed
  have d: "map device_name res = map (\<lambda>pr. appliance_type (row_of pr)) (resolve_room_devices df room)
         \<and> distinct (map device_name res)
         \<and> set (map device_name res) = (\<lambda>ir. appliance_type (snd ir)) ` set (room_devices df room)
         \<and> (\<forall>e\<in>set res. \<exists>ir\<in>set (room_devices df room).
               device_id e = int (fst ir) + 1 \<and> device_name e = appliance_type (snd ir)
               \<and> previous_maintenance_date e
                   = map_option toordinal (parse_date (last_maintenance_date (snd ir)))
               \<and> (\<forall>ir'\<in>set (room_devices df room).
                     appliance_type (snd ir') = device_name e \<longrightarrow>
                     (\<forall>d'. parse_date (last_maintenance_date (snd ir')) = Some d' \<longrightarrow>
                        (\<exists>d. parse_date (last_maintenance_date (snd ir)) = Some d
                             \<and> toordinal d' \<le> toordinal d))))"
    if "loaded_training_df st = df" "predict_for_room st clk room = Inr res"
    using predict_for_room_result [OF that(2)] unfolding that(1) .
  show ?thesis
  proof (intro conjI)
    show "distinct (map (\<lambda>pr. appliance_type (row_of pr)) (resolve_room_devices df room))"
      by (rule a)
    show "(\<lambda>pr. appliance_type (row_of pr)) ` set (resolve_room_devices df room)
       = (\<lambda>ir. appliance_type (snd ir)) ` set (room_devices df room)"
      by (rule b)
    show "\<forall>pr\<in>set (resolve_room_devices df room).
         (fst pr, row_of pr) \<in> set (room_devices df room)
         \<and> parsed_of pr = parse_date (last_maintenance_date (row_of pr))
         \<and> (\<forall>ir'\<in>set (room_devices df room).
               appliance_type (snd ir') = appliance_type (row_of pr) \<longrightarrow>
               (\<forall>d'. parse_date (last_maintenance_date (snd ir')) = Some d' \<longrightarrow>
                  (\<exists>d. parsed_of pr = Some d \<and> toordinal d' \<le> toordinal d)))"
      by (intro ballI) (rule c)
    show "loaded_training_df st = df \<longrightarrow> predict_for_room st clk room = Inr res \<longrightarrow>
         map device_name res = map (\<lambda>pr. appliance_type (row_of pr)) (resolve_room_devices df room)
         \<and> distinct (map device_name res)
         \<and> set (map device_name res) = (\<lambda>ir. appliance_type (snd ir)) ` set (room_devices df room)
         \<and> (\<forall>e\<in>set res. \<exists>ir\<in>set (room_devices df room).
               device_id e = int (fst ir) + 1 \<and> device_name e = appliance_type (snd ir)
               \<and> previous_maintenance_date e
                   = map_option toordinal (parse_date (last_maintenance_date (snd ir)))
               \<and> (\<forall>ir'\<in>set (room_devices df room).
                     appliance_type (snd ir') = device_name e \<longrightarrow>
                     (\<forall>d'. parse_date (last_maintenance_date (snd ir')) = Some d' \<longrightarrow>
                        (\<exists>d. parse_date (last_maintenance_date (snd ir)) = Some d
                             \<and> toordinal d' \<le> toordinal d))))"
      by (intro impI) (rule d)
  qed
qed

lemma example_predict_for_room:
  "predict_for_room example_state example_clock 101 = Inr example_room_result"
  unfolding example_room_result_def by code_simp

theorem predict_for_room_one_entry_per_type_witness:
  "predict_for_room example_state example_clock 101 = Inr example_room_result
   \<and> distinct (map device_name example_room_result)
   \<and> set (map device_name example_room_result)
       = (\<lambda>ir. appliance_type (snd ir)) ` set (room_devices (loaded_training_df example_state) 101)"
proof -
  note t = predict_for_room_one_entry_per_type
             [where st = example_state and df = "loaded_training_df example_state"
                and clk = example_clock and room = 101 and res = example_room_result]
  note r = t [THEN conjunct2, THEN conjunct2, THEN conjunct2, THEN mp, OF refl,
              THEN mp, OF example_predict_for_room]
  from r have one: "distinct (map device_name example_room_result)"
    by (rule conjunct2 [THEN conjunct1])
  from r have two: "set (map device_name example_room_result)
       = (\<lambda>ir. appliance_type (snd ir)) ` set (room_devices (loaded_training_df example_state) 101)"
    by (rule conjunct2 [THEN conjunct2, THEN conjunct1])
  from example_predict_for_room one two show ?thesis by (intro conjI)
qed

section \<open>A lookup that finds nothing\<close>

lemma snd_indexed: "snd ` set (indexed df) = set df"
proof -
  have "map snd (enumerate 0 df) = df" by (simp add: enumerate_eq_zip)
  then have "set (map snd (indexed df)) = set df" by (simp add: indexed_def)
  then show ?thesis by simp
qed

lemma room_devices_empty:
  "(\<forall>row\<in>set df. room_number row \<noteq> room) \<Longrightarrow> room_devices df room = []"
proof -
  assume a: "\<forall>row\<in>set df. room_number row \<noteq> room"
  have "\<forall>ir\<in>set (indexed df). room_number (snd ir) \<noteq> room"
    using a snd_indexed [of df] by auto
  then show ?thesis by (simp add: room_devices_def filter_empty_conv)
qed

lemma device_data_empty:
  "(\<forall>row\<in>set df. \<not> (room_number row = room \<and> appliance_type row = appl))
   \<Longrightarrow> device_data df room appl = []"
proof -
  assume a: "\<forall>row\<in>set df. \<not> (room_number row = room \<and> appliance_type row = appl)"
  have "\<forall>ir\<in>set (indexed df). \<not> (room_number (snd ir) = room \<and> appliance_type (snd ir) = appl)"
    using a snd_indexed [of df] by auto
  then show ?thesis by (simp add: device_data_def filter_empty_conv)
qed

text \<open>
  Claim C7. With a model and a non-empty data set, \<^verbatim>\<open>predict_for_room\<close> of a room without
  rows returns the empty list and \<^verbatim>\<open>get_device_details\<close> of a pair without rows returns the
  empty record; neither raises.
\<close>

theorem lookup_miss_is_empty_success:
  assumes "hotel_model st \<noteq> None" and "loaded_training_df st \<noteq> []"
  shows "((\<forall>row\<in>set (loaded_training_df st). room_number row \<noteq> room)
            \<longrightarrow> predict_for_room st clk room = Inr [])
       \<and> ((\<forall>row\<in>set (loaded_training_df st). \<not> (room_number row = room \<and> appliance_type row = appl))
            \<longrightarrow> get_device_details st clk room appl = Inr None)"
  using assms
  by (auto simp: predict_for_room_def get_device_details_def room_devices_empty device_data_empty)

lemma example_no_room_999:
  "\<forall>row\<in>set (loaded_training_df example_state). room_number row \<noteq> 999"
  by (simp add: example_state_def example_df_def example_row_def)

lemma example_no_fridge:
  "\<forall>row\<in>set (loaded_training_df example_state). \<not> (room_number row = 101 \<and> appliance_type row = ''Fridge'')"
  by (simp add: example_state_def example_df_def example_row_def)

theorem lookup_miss_is_empty_success_witness:
  "hotel_model example_state \<noteq> None \<and> loaded_training_df example_state \<noteq> []
   \<and> predict_for_room example_state example_clock 999 = Inr []
   \<and> get_device_details example_state example_clock 101 ''Fridge'' = Inr None"
proof -
  have m: "hotel_model example_state \<noteq> None" by (simp add: example_state_def)
  have d: "loaded_training_df example_state \<noteq> []" by (simp add: example_state_def example_df_def)
  from lookup_miss_is_empty_success [OF m d, where room = 999 and clk = example_clock]
    example_no_room_999
  have a: "predict_for_room example_state example_clock 999 = Inr []" by blast
  from lookup_miss_is_empty_success [OF m d, where room = 101 and clk = example_clock
                                     and appl = "''Fridge''"]
    example_no_fridge
  have b: "get_device_details example_state example_clock 101 ''Fridge'' = Inr None" by blast
  from m d a b show ?thesis by blast
qed

section \<open>Predicted days and the warranty flag\<close>

lemma predicted_days_since_nonneg: "predicted_days_since g row = Inr d \<Longrightarrow> 0 \<le> d"
  by (auto simp: predicted_days_since_def split: sum.splits)

lemma view_entry_nonneg:
  "0 \<le> days \<Longrightarrow> 0 \<le> predictedDaysSinceMaintenance (view_entry clk ir issue parsed days n)"
  by (simp add: view_entry_def round2_nonneg)

lemma upcoming_row_nonneg:
  "upcoming_row g clk six ir = Inr (Some e) \<Longrightarrow> 0 \<le> predictedDaysSinceMaintenance e"
  by (auto simp: upcoming_row_def Let_def view_entry_nonneg
           dest: predicted_days_since_nonneg split: sum.splits option.splits if_splits)

lemma weekly_row_nonneg:
  "weekly_row g clk ir = Inr (Some e) \<Longrightarrow> 0 \<le> predictedDaysSinceMaintenance e"
  by (auto simp: weekly_row_def Let_def view_entry_nonneg
           dest: predicted_days_since_nonneg split: sum.splits option.splits if_splits)

lemma room_entry_nonneg:
  "room_entry g clk pr = Inr (Some e) \<Longrightarrow> 0 \<le> predictedDaysSinceMaintenance e"
  using room_entry_fields [of g clk pr "Some e"] by auto

text \<open>
  Claim C8. The predicted number of days since maintenance is never negative: the
  regressor's output is clamped at zero before it is used, and every entry that
  \<^verbatim>\<open>predict_for_room\<close>, the upcoming view and the weekly view return reports a value of at
  least zero.
\<close>

theorem predicted_days_never_negative:
  "(predicted_days_since g row = Inr d \<longrightarrow> 0 \<le> d \<and> (\<exists>p. model_predict g row = Inr p \<and> d = max 0 p))
   \<and> (predict_for_room st clk room = Inr res
        \<longrightarrow> (\<forall>e\<in>set res. 0 \<le> predictedDaysSinceMaintenance e))
   \<and> (get_upcoming_maintenance_devices st clk = Inr res
        \<longrightarrow> (\<forall>e\<in>set res. 0 \<le> predictedDaysSinceMaintenance e))
   \<and> (get_current_week_maintenance_devices st clk = Inr res
        \<longrightarrow> (\<forall>e\<in>set res. 0 \<le> predictedDaysSinceMaintenance e))"
proof -
  have a: "predicted_days_since g row = Inr d \<longrightarrow> 0 \<le> d \<and> (\<exists>p. model_predict g row = Inr p \<and> d = max 0 p)"
    by (auto simp: predicted_days_since_def split: sum.splits)
  have b: "\<forall>e\<in>set res. 0 \<le> predictedDaysSinceMaintenance e"
    if "predict_for_room st clk room = Inr res"
  proof (cases "room_devices (loaded_training_df st) room = []")
    case True
    with that have "res = []"
      by (auto simp: predict_for_room_def split: option.splits if_splits)
    then show ?thesis by simp
  next
    case False
    with that obtain h where
      "collect (room_entry h clk) (resolve_room_devices (loaded_training_df st) room) = Inr res"
      by (auto simp: predict_for_room_def split: option.splits if_splits)
    then show ?thesis
      by (auto simp: collect_mem dest: room_entry_nonneg)
  qed
  have c: "\<forall>e\<in>set res. 0 \<le> predictedDaysSinceMaintenance e"
    if "get_upcoming_maintenance_devices st clk = Inr res"
  proof -
    from that obtain h where
      "collect (upcoming_row h clk (today clk + 182)) (indexed (loaded_training_df st)) = Inr res"
      by (auto simp: get_upcoming_maintenance_devices_def split: option.splits if_splits)
    then show ?thesis
      by (auto simp: collect_mem dest: upcoming_row_nonneg)
  qed
  have d: "\<forall>e\<in>set res. 0 \<le> predictedDaysSinceMaintenance e"
    if "get_current_week_maintenance_devices st clk = Inr res"
  proof -
    from that obtain h where
      "collect (weekly_row h clk) (indexed (loaded_training_df st)) = Inr res"
      by (auto simp: get_current_week_maintenance_devices_def split: option.splits if_splits)
    then show ?thesis
      by (auto simp: collect_mem dest: weekly_row_nonneg)
  qed
  from a b c d show ?thesis by blast
qed

lemma negative_predicted:
  "predicted_days_since (\<lambda>u a y. - 7 / 2) (example_row 102 ''TV'' (Some ''03/04/2024'')) = Inr 0"
  by code_simp

lemma negative_room: "predict_for_room negative_state example_clock 102 = Inr negative_result"
  unfolding negative_result_def by code_simp

lemma negative_upcoming:
  "get_upcoming_maintenance_devices negative_state \<lparr>today = 738940, current_year = 2024\<rparr>
     = Inr negative_result"
  unfolding negative_result_def by code_simp

lemma negative_weekly:
  "get_current_week_maintenance_devices negative_state \<lparr>today = 738950, current_year = 2024\<rparr>
     = Inr negative_result"
  unfolding negative_result_def by code_simp

theorem predicted_days_never_negative_witness:
  "predicted_days_since (\<lambda>u a y. - 7 / 2) (example_row 102 ''TV'' (Some ''03/04/2024'')) = Inr 0
   \<and> (0::real) \<le> 0
   \<and> predict_for_room negative_state example_clock 102 = Inr negative_result
   \<and> get_upcoming_maintenance_devices negative_state \<lparr>today = 738940, current_year = 2024\<rparr>
       = Inr negative_result
   \<and> get_current_week_maintenance_devices negative_state \<lparr>today = 738950, current_year = 2024\<rparr>
       = Inr negative_result
   \<and> list_all (\<lambda>e. 0 \<le> predictedDaysSinceMaintenance e) negative_result"
  unfolding list_all_iff
  using predicted_days_never_negative
          [where g = "\<lambda>u a y. - 7 / 2" and row = "example_row 102 ''TV'' (Some ''03/04/2024'')"
             and d = 0 and st = negative_state and clk = example_clock and room = 102
             and res = negative_result]
        negative_predicted negative_room negative_upcoming negative_weekly
  by blast

lemma details_of_warranty:
  "details_of g clk ir = Inr info
   \<Longrightarrow> device_id info = int (fst ir) + 1
       \<and> under_warranty info = warranty_flag ''Yes'' ''No'' (current_year clk) (warranty_year (snd ir))"
  by (auto simp: details_of_def Let_def split: sum.splits)

lemma warranty_flag_iff:
  "warranty_flag yes no cy w = (if \<exists>y. w = Some y \<and> cy \<le> y then yes else no)"
  by (auto simp: warranty_flag_def split: option.splits)

text \<open>
  Claim C6, as amended. \<^verbatim>\<open>predict_for_room\<close> reports the warranty flag \<^verbatim>\<open>yes\<close> exactly when
  the warranty year of the record is present and not before the current year, and \<^verbatim>\<open>no\<close>
  otherwise. \<^verbatim>\<open>get_device_details\<close> decides in the same way and reports the capitalised
  strings \<^verbatim>\<open>Yes\<close> and \<^verbatim>\<open>No\<close>.
\<close>

theorem warranty_flag_reported:
  "(predict_for_room st clk room = Inr res \<longrightarrow>
      (\<forall>e\<in>set res. \<exists>ir\<in>set (room_devices (loaded_training_df st) room).
         device_id e = int (fst ir) + 1
         \<and> under_warranty e
             = (if \<exists>y. warranty_year (snd ir) = Some y \<and> current_year clk \<le> y
                then ''yes'' else ''no'')))
   \<and> (get_device_details st clk room appl = Inr (Some info) \<longrightarrow>
      (\<exists>ir rest. device_data (loaded_training_df st) room appl = ir # rest
         \<and> device_id info = int (fst ir) + 1
         \<and> under_warranty info
             = (if \<exists>y. warranty_year (snd ir) = Some y \<and> current_year clk \<le> y
                then ''Yes'' else ''No'')))"
proof -
  let ?df = "loaded_training_df st"
  have a: "\<exists>ir\<in>set (room_devices ?df room).
         device_id e = int (fst ir) + 1
         \<and> under_warranty e
             = (if \<exists>y. warranty_year (snd ir) = Some y \<and> current_year clk \<le> y
                then ''yes'' else ''no'')"
    if r: "predict_for_room st clk room = Inr res" and e: "e \<in> set res" for e
  proof -
    from r e have ne: "room_devices ?df room \<noteq> []"
      by (auto simp: predict_for_room_def split: option.splits if_splits)
    with r obtain h where "collect (room_entry h clk) (resolve_room_devices ?df room) = Inr res"
      by (auto simp: predict_for_room_def split: option.splits if_splits)
    with e obtain pr where pr: "pr \<in> set (resolve_room_devices ?df room)"
      and re: "room_entry h clk pr = Inr (Some e)"
      by (auto simp: collect_mem)
    from room_entry_fields [OF re]
    have f: "device_id e = int (fst pr) + 1"
      "under_warranty e = warranty_flag ''yes'' ''no'' (current_year clk) (warranty_year (row_of pr))"
      by auto
    from resolve_set [OF pr] have mem: "(fst pr, row_of pr) \<in> set (room_devices ?df room)" by simp
    show ?thesis
      by (rule bexI [OF _ mem]) (simp add: f warranty_flag_iff)
  qed
  have b: "\<exists>ir rest. device_data ?df room appl = ir # rest
         \<and> device_id info = int (fst ir) + 1
         \<and> under_warranty info
             = (if \<exists>y. warranty_year (snd ir) = Some y \<and> current_year clk \<le> y
                then ''Yes'' else ''No'')"
    if "get_device_details st clk room appl = Inr (Some info)"
  proof -
    from that obtain h ir rest where dd: "device_data ?df room appl = ir # rest"
      and det: "details_of h clk ir = Inr info"
      by (auto simp: get_device_details_def split: option.splits if_splits list.splits sum.splits)
    from details_of_warranty [OF det] dd show ?thesis
      by (simp add: warranty_flag_iff)
  qed
  from a b show ?thesis by blast
qed

lemma example_details_eval:
  "get_device_details example_state example_clock 101 ''TV'' = Inr (Some example_details)"
  unfolding example_details_def by code_simp

theorem warranty_flag_reported_witness:
  "predict_for_room example_state example_clock 101 = Inr example_room_result
   \<and> get_device_details example_state example_clock 101 ''TV'' = Inr (Some example_details)
   \<and> map under_warranty example_room_result = [''yes'', ''yes'']
   \<and> under_warranty example_details = ''Yes''"
proof -
  have "map under_warranty example_room_result = [''yes'', ''yes'']"
    by (simp add: example_room_result_def)
  moreover have "under_warranty example_details = ''Yes''"
    by (simp add: example_details_def)
  ultimately show ?thesis
    using warranty_flag_reported
            [where st = example_state and clk = example_clock and room = 101
               and res = example_room_result and appl = "''TV''" and info = example_details]
          example_predict_for_room example_details_eval
    by blast
qed

text \<open>
  Claim C6 as stated fails for \<^verbatim>\<open>get_device_details\<close>: a record under warranty is reported
  with the flag \<^verbatim>\<open>Yes\<close>, which is not the string \<^verbatim>\<open>yes\<close>.
\<close>

theorem warranty_flag_lowercase_counterexample:
  "get_device_details example_state example_clock 101 ''TV'' = Inr (Some example_details)
   \<and> warranty_year (loaded_training_df example_state ! 0) = Some 2025
   \<and> current_year example_clock \<le> 2025
   \<and> under_warranty example_details \<noteq> ''yes''"
proof -
  have "warranty_year (loaded_training_df example_state ! 0) = Some 2025"
    by (simp add: example_state_def example_df_def example_row_def)
  moreover have "current_year example_clock \<le> 2025"
    by (simp add: example_clock_def)
  moreover have "under_warranty example_details \<noteq> ''yes''"
    by (simp add: example_details_def)
  ultimately show ?thesis using example_details_eval by blast
qed

section \<open>The number of devices\<close>

lemma drop_duplicates_length: "length (drop_duplicates k xs) = card (k ` set xs)"
proof -
  have "length (drop_duplicates k xs) = length (map k (drop_duplicates_from [] k xs))"
    by (simp add: drop_duplicates_def)
  also have "\<dots> = card (set (map k (drop_duplicates_from [] k xs)))"
    by (rule distinct_card [symmetric]) (rule drop_duplicates_from_distinct)
  also have "\<dots> = card (k ` set xs)"
    by (simp add: drop_duplicates_from_keys)
  finally show ?thesis .
qed

lemma dashboard_total:
  "get_dashboard_insights st clk = Inr (Dashboard d)
   \<Longrightarrow> total_devices d = card ((\<lambda>row. (room_number row, appliance_type row)) ` set (loaded_training_df st))"
  by (auto simp: get_dashboard_insights_def Let_def drop_duplicates_length
           split: option.splits if_splits sum.splits)

text \<open>
  Claim C9. The dashboard's \<^verbatim>\<open>total_devices\<close> is the number of distinct pairs of room number
  and appliance type in the data set, and a further row for a pair that is already there
  leaves it unchanged.
\<close>

theorem total_devices_counts_distinct_pairs:
  "(get_dashboard_insights st clk = Inr (Dashboard d) \<longrightarrow>
      total_devices d
        = card ((\<lambda>row. (room_number row, appliance_type row)) ` set (loaded_training_df st)))
   \<and> (get_dashboard_insights st clk = Inr (Dashboard d) \<longrightarrow>
      get_dashboard_insights st' clk' = Inr (Dashboard d') \<longrightarrow>
      loaded_training_df st = xs @ ys \<longrightarrow> loaded_training_df st' = xs @ r # ys \<longrightarrow>
      (\<exists>row\<in>set (xs @ ys). room_number row = room_number r \<and> appliance_type row = appliance_type r) \<longrightarrow>
      total_devices d' = total_devices d)"
proof -
  let ?k = "\<lambda>row. (room_number row, appliance_type row)"
  have "total_devices d' = total_devices d"
    if a: "get_dashboard_insights st clk = Inr (Dashboard d)"
      and b: "get_dashboard_insights st' clk' = Inr (Dashboard d')"
      and c: "loaded_training_df st = xs @ ys" "loaded_training_df st' = xs @ r # ys"
      and e: "\<exists>row\<in>set (xs @ ys). room_number row = room_number r \<and> appliance_type row = appliance_type r"
  proof -
    from e obtain row where row: "row \<in> set (xs @ ys)"
      "room_number row = room_number r" "appliance_type row = appliance_type r" by blast
    from row(2,3) have "?k r = ?k row" by simp
    with row(1) have "?k r \<in> ?k ` set (xs @ ys)" by (rule_tac image_eqI)
    then have "?k ` set (xs @ r # ys) = ?k ` set (xs @ ys)" by auto
    with dashboard_total [OF a] dashboard_total [OF b] c show ?thesis by simp
  qed
  with dashboard_total show ?thesis by blast
qed

lemma example_dashboard_eval:
  "get_dashboard_insights example_state example_clock = Inr (Dashboard example_dashboard)"
  unfolding example_dashboard_def by code_simp

lemma example_dashboard_more_eval:
  "get_dashboard_insights example_state_more example_clock = Inr (Dashboard example_dashboard_more)"
  unfolding example_dashboard_more_def by code_simp

theorem total_devices_counts_distinct_pairs_witness:
  "get_dashboard_insights example_state example_clock = Inr (Dashboard example_dashboard)
   \<and> get_dashboard_insights example_state_more example_clock = Inr (Dashboard example_dashboard_more)
   \<and> total_devices example_dashboard
       = card ((\<lambda>row. (room_number row, appliance_type row)) ` set (loaded_training_df example_state))
   \<and> total_devices example_dashboard_more = total_devices example_dashboard"
proof -
  have a: "loaded_training_df example_state = [] @ example_df"
    by (simp add: example_state_def)
  have b: "loaded_training_df example_state_more
             = [] @ example_row 101 ''TV'' (Some ''12/12/2020'') # example_df"
    by (simp add: example_state_more_def example_state_def)
  have c: "\<exists>row\<in>set ([] @ example_df).
             room_number row = room_number (example_row 101 ''TV'' (Some ''12/12/2020''))
             \<and> appliance_type row = appliance_type (example_row 101 ''TV'' (Some ''12/12/2020''))"
    by (simp add: example_df_def example_row_def)
  from total_devices_counts_distinct_pairs
         [where st = example_state and clk = example_clock and d = example_dashboard
            and st' = example_state_more and clk' = example_clock and d' = example_dashboard_more
            and xs = "[]" and ys = example_df and r = "example_row 101 ''TV'' (Some ''12/12/2020'')"]
       example_dashboard_eval example_dashboard_more_eval a b c
  show ?thesis by blast
qed

section \<open>Due today, and the weekly view\<close>

lemma parse_raw_Some: "next_date (parse_str cell) days = Inr (Some n) \<Longrightarrow> parse_raw cell = Inr (parse_str cell)"
proof (cases cell)
  case None
  assume a: "next_date (parse_str cell) days = Inr (Some n)"
  have "parse_str None = None"
    using strptime_nan by (simp add: parse_str_def py_str_def try_formats_def first_some_None)
  with a None show ?thesis by (simp add: next_date_def)
next
  case (Some s)
  then show ?thesis by (simp add: parse_raw_def parse_str_def py_str_def)
qed

lemma upcoming_row_id: "upcoming_row g clk six ir = Inr (Some e) \<Longrightarrow> device_id e = int (fst ir) + 1"
  by (auto simp: upcoming_row_def Let_def view_entry_def split: sum.splits option.splits if_splits)

lemma upcoming_row_due_today:
  assumes "predicted_days_since g row = Inr days"
    and "next_date (parse_str (last_maintenance_date row)) days = Inr (Some (today clk))"
  shows "upcoming_row g clk six (i, row) = Inr None"
  using assms parse_raw_Some [OF assms(2)]
  by (simp add: upcoming_row_def)

lemma dashboard_row_due_today:
  assumes "predicted_days_since g row = Inr days"
    and "next_date (parse_str (last_maintenance_date row)) days = Inr (Some (today clk))"
  shows "dashboard_row g clk (i, row)
         = Inr (Some \<lparr>pending_room_no = room_number row, pending_device_id = int i + 1,
                      pending_device_name = appliance_type row, maintenance_date = today clk\<rparr>)"
  using assms by (simp add: dashboard_row_def)

text \<open>
  Claim C3. A record whose computed next-maintenance date is today is due: the
  dashboard loop appends its entry to the pending list, the returned dashboard lists it
  and counts one due device per pending entry, and the six-month upcoming view skips
  the record, so no entry of that view carries its device id.
\<close>

theorem due_today_is_pending_not_upcoming:
  assumes "hotel_model st = Some g"
    and "(i, row) \<in> set (indexed (loaded_training_df st))"
    and "predicted_days_since g row = Inr days"
    and "next_date (parse_str (last_maintenance_date row)) days = Inr (Some (today clk))"
  shows "dashboard_row g clk (i, row)
           = Inr (Some \<lparr>pending_room_no = room_number row, pending_device_id = int i + 1,
                        pending_device_name = appliance_type row, maintenance_date = today clk\<rparr>)
       \<and> upcoming_row g clk (today clk + 182) (i, row) = Inr None
       \<and> (get_dashboard_insights st clk = Inr (Dashboard d) \<longrightarrow>
            \<lparr>pending_room_no = room_number row, pending_device_id = int i + 1,
             pending_device_name = appliance_type row, maintenance_date = today clk\<rparr>
              \<in> set (Pending_maintenance d)
            \<and> due_maintenance d = int (length (Pending_maintenance d)))
       \<and> (get_upcoming_maintenance_devices st clk = Inr up \<longrightarrow>
            (\<forall>e\<in>set up. device_id e \<noteq> int i + 1))"
proof -
  let ?df = "loaded_training_df st"
  have a: "\<lparr>pending_room_no = room_number row, pending_device_id = int i + 1,
             pending_device_name = appliance_type row, maintenance_date = today clk\<rparr>
              \<in> set (Pending_maintenance d)
            \<and> due_maintenance d = int (length (Pending_maintenance d))"
    if "get_dashboard_insights st clk = Inr (Dashboard d)"
  proof -
    from that assms(1) have c: "collect (dashboard_row g clk) (indexed ?df) = Inr (Pending_maintenance d)"
      and l: "due_maintenance d = int (length (Pending_maintenance d))"
      by (auto simp: get_dashboard_insights_def Let_def split: if_splits sum.splits option.splits)
    from collect_mem [OF c] assms(2) dashboard_row_due_today [OF assms(3,4), of i] l
    show ?thesis by blast
  qed
  have b: "\<forall>e\<in>set up. device_id e \<noteq> int i + 1"
    if "get_upcoming_maintenance_devices st clk = Inr up"
  proof
    fix e
    assume e: "e \<in> set up"
    from that assms(1) have c: "collect (upcoming_row g clk (today clk + 182)) (indexed ?df) = Inr up"
      by (auto simp: get_upcoming_maintenance_devices_def split: if_splits)
    from collect_mem [OF c] e obtain ir where ir: "ir \<in> set (indexed ?df)"
      and u: "upcoming_row g clk (today clk + 182) ir = Inr (Some e)" by blast
    show "device_id e \<noteq> int i + 1"
    proof
      assume "device_id e = int i + 1"
      with upcoming_row_id [OF u] have "fst ir = i" by simp
      with ir have "(i, snd ir) \<in> set (indexed ?df)" by (metis prod.collapse)
      from indexed_unique [OF this assms(2)] \<open>fst ir = i\<close> have "ir = (i, row)"
        by (metis prod.collapse)
      with u upcoming_row_due_today [OF assms(3,4), of "today clk + 182" i] show False by simp
    qed
  qed
  from a b dashboard_row_due_today [OF assms(3,4), of i]
    upcoming_row_due_today [OF assms(3,4), of "today clk + 182" i]
  show ?thesis by blast
qed

lemma late_dashboard_eval:
  "get_dashboard_insights late_state example_clock = Inr (Dashboard late_dashboard)"
  unfolding late_dashboard_def by code_simp

lemma late_upcoming_eval:
  "get_upcoming_maintenance_devices late_state example_clock = Inr late_upcoming"
  unfolding late_upcoming_def by code_simp

lemma late_weekly_eval:
  "get_current_week_maintenance_devices late_state week_clock = Inr late_weekly"
  unfolding late_weekly_def by code_simp

lemma late_model: "hotel_model late_state = Some (\<lambda>u a y. 10)"
  by (simp add: late_state_def example_state_def)

lemma due_row_indexed: "(4, due_row) \<in> set (indexed (loaded_training_df late_state))"
  by (simp add: late_state_def example_state_def example_df_def due_row_def indexed_def enumerate_eq_zip upt_rec)

lemma due_row_days: "predicted_days_since (\<lambda>u a y. 10) due_row = Inr 10"
  by code_simp

lemma due_row_next: "next_date (parse_str (last_maintenance_date due_row)) 10 = Inr (Some 738959)"
  by code_simp

theorem due_today_is_pending_not_upcoming_witness:
  "get_dashboard_insights late_state example_clock = Inr (Dashboard late_dashboard)
   \<and> get_upcoming_maintenance_devices late_state example_clock = Inr late_upcoming
   \<and> \<lparr>pending_room_no = room_number due_row, pending_device_id = 5,
       pending_device_name = appliance_type due_row, maintenance_date = today example_clock\<rparr>
        \<in> set (Pending_maintenance late_dashboard)
   \<and> 5 \<notin> device_id ` set late_upcoming"
proof -
  have t: "next_date (parse_str (last_maintenance_date due_row)) 10 = Inr (Some (today example_clock))"
    using due_row_next by (simp add: example_clock_def)
  from due_today_is_pending_not_upcoming [OF late_model due_row_indexed due_row_days t,
         of late_dashboard late_upcoming]
       late_dashboard_eval late_upcoming_eval
  show ?thesis by auto
qed

lemma week_dashboard_eval:
  "get_dashboard_insights late_state week_clock = Inr (Dashboard late_dashboard)"
  unfolding late_dashboard_def by code_simp

lemma week_upcoming_eval:
  "get_upcoming_maintenance_devices late_state week_clock = Inr late_upcoming"
  unfolding late_upcoming_def by code_simp

text \<open>
  Claim C4. The weekly view is to list a row exactly when its next-maintenance date is
  after today and within the current week, so never a date of this week that lies before
  today. The code does not do this: on Saturday 738961, in the week that began on Monday
  738956, the weekly view lists the device with id 5, whose next-maintenance date is the
  Thursday 738959 before. On the same day the dashboard has this device in its pending
  list and the upcoming view, whose test is \<^verbatim>\<open>today < next\<close>, leaves it out.
\<close>

theorem weekly_view_lists_overdue_device:
  "get_current_week_maintenance_devices late_state week_clock = Inr late_weekly
   \<and> map device_id late_weekly = [5]
   \<and> map next_maintenance_date late_weekly = [Some 738959]
   \<and> 738959 < today week_clock
   \<and> start_of_current_week week_clock = 738956
   \<and> end_of_current_week week_clock = 738962
   \<and> get_dashboard_insights late_state week_clock = Inr (Dashboard late_dashboard)
   \<and> map pending_device_id (Pending_maintenance late_dashboard) = [1, 3, 5]
   \<and> get_upcoming_maintenance_devices late_state week_clock = Inr late_upcoming
   \<and> map device_id late_upcoming = [6]"
proof -
  have "map device_id late_weekly = [5]" "map next_maintenance_date late_weekly = [Some 738959]"
    by (simp_all add: late_weekly_def)
  moreover have "738959 < today week_clock" by (simp add: week_clock_def)
  moreover have "start_of_current_week week_clock = 738956"
    "end_of_current_week week_clock = 738962"
    by (simp_all add: week_clock_def start_of_current_week_def end_of_current_week_def weekday_def)
  moreover have "map pending_device_id (Pending_maintenance late_dashboard) = [1, 3, 5]"
    by (simp add: late_dashboard_def)
  moreover have "map device_id late_upcoming = [6]"
    by (simp add: late_upcoming_def)
  ultimately show ?thesis
    using late_weekly_eval week_dashboard_eval week_upcoming_eval by (intro conjI)
qed

section \<open>Missing columns\<close>

lemma missing_cols_set: "set (missing_cols required cols) = set required - set cols"
  by (auto simp: missing_cols_def)

lemma missing_cols_order: "subseq (missing_cols required cols) required"
  by (simp add: missing_cols_def)

lemma missing_cols_nonempty:
  "\<not> list_all (\<lambda>col. col \<in> set cols) required \<Longrightarrow> missing_cols required cols \<noteq> []"
  by (auto simp: missing_cols_def list_all_iff filter_empty_conv)

text \<open>
  Claim C5, as amended. For a table that lacks required columns, training fails with a
  \<^verbatim>\<open>ValueError\<close> and the selection of a hotel data set fails, each with a message that ends
  in the list of exactly the missing columns and no others, in the order in which the
  schema declares them.
\<close>

theorem missing_columns_named_in_declaration_order:
  "(\<not> list_all (\<lambda>col. col \<in> set (columns df)) (features @ [target] @ required_lookup_cols) \<longrightarrow>
      train_model fit st df
        = Inl (ValueError (''Missing required columns in CSV: ''
                 @ join '', '' (missing_cols (features @ [target] @ required_lookup_cols) (columns df))))
      \<and> missing_cols (features @ [target] @ required_lookup_cols) (columns df) \<noteq> [])
   \<and> (map_of HOTEL_CSV_FILES (lower hotel_name) = Some path \<longrightarrow> files path = Some df \<longrightarrow>
      \<not> list_all (\<lambda>col. col \<in> set (columns df)) hotel_required_cols \<longrightarrow>
      (\<exists>e pre. load_hotel_data st files hotel_name = Inl e
           \<and> message_of e
               = pre @ ''Missing required columns in '' @ quoted path @ '': ''
                   @ join '', '' (missing_cols hotel_required_cols (columns df)))
      \<and> missing_cols hotel_required_cols (columns df) \<noteq> [])
   \<and> set (missing_cols required cols) = set required - set cols
   \<and> subseq (missing_cols required cols) required"
proof -
  have a: "train_model fit st df
        = Inl (ValueError (''Missing required columns in CSV: ''
                 @ join '', '' (missing_cols (features @ [target] @ required_lookup_cols) (columns df))))
      \<and> missing_cols (features @ [target] @ required_lookup_cols) (columns df) \<noteq> []"
    if "\<not> list_all (\<lambda>col. col \<in> set (columns df)) (features @ [target] @ required_lookup_cols)"
    using that by (simp add: train_model_def Let_def missing_cols_nonempty)
  have b: "(\<exists>e pre. load_hotel_data st files hotel_name = Inl e
           \<and> message_of e
               = pre @ ''Missing required columns in '' @ quoted path @ '': ''
                   @ join '', '' (missing_cols hotel_required_cols (columns df)))
      \<and> missing_cols hotel_required_cols (columns df) \<noteq> []"
    if h: "map_of HOTEL_CSV_FILES (lower hotel_name) = Some path" "files path = Some df"
      "\<not> list_all (\<lambda>col. col \<in> set (columns df)) hotel_required_cols"
  proof -
    let ?tail = "''Missing required columns in '' @ quoted path @ '': ''
                   @ join '', '' (missing_cols hotel_required_cols (columns df))"
    let ?pre = "''Error loading data for hotel '' @ quoted hotel_name @ '' from ''
                  @ quoted path @ '': ''"
    from h have l: "load_hotel_data st files hotel_name = Inl (Exception (?pre @ ?tail))"
      by (simp add: load_hotel_data_def)
    have m: "message_of (Exception (?pre @ ?tail)) = ?pre @ ?tail" by simp
    from l m have "\<exists>e pre. load_hotel_data st files hotel_name = Inl e \<and> message_of e = pre @ ?tail"
      by blast
    with missing_cols_nonempty [OF h(3)] show ?thesis by blast
  qed
  from a b missing_cols_set [of required cols] missing_cols_order [of required cols]
  show ?thesis by blast
qed

lemma short_table_train:
  "train_model example_fit example_state short_table
     = Inl (ValueError ''Missing required columns in CSV: Usage Hours, Average_Daily_Usage'')"
  by (simp add: train_model_def short_table_def features_def target_def required_lookup_cols_def
                missing_cols_def)

lemma lower_Westin: "lower ''Westin'' = ''westin''"
  by code_simp

lemma not_sorted_cols: "\<not> sorted [''Usage Hours'', ''Average_Daily_Usage'']"
  by code_simp

text \<open>
  Claim C5 as stated fails: with the two columns \<^verbatim>\<open>Usage Hours\<close> and \<^verbatim>\<open>Average_Daily_Usage\<close>
  missing, the message lists them in this order, which is not sorted.
\<close>

theorem missing_columns_sorted_counterexample:
  "train_model example_fit example_state short_table
     = Inl (ValueError ''Missing required columns in CSV: Usage Hours, Average_Daily_Usage'')
   \<and> \<not> sorted [''Usage Hours'', ''Average_Daily_Usage'']"
  using short_table_train not_sorted_cols by blast

theorem missing_columns_named_in_declaration_order_witness:
  "train_model example_fit example_state short_table
     = Inl (ValueError (''Missing required columns in CSV: '' @ join '', '' [''Usage Hours'', ''Average_Daily_Usage'']))
   \<and> (\<exists>e pre. load_hotel_data example_state example_files ''Westin'' = Inl e
          \<and> message_of e
              = pre @ ''Missing required columns in '' @ quoted ''Westin.csv'' @ '': ''
                  @ join '', '' [''Usage Hours'', ''Average_Daily_Usage''])"
proof -
  have m1: "missing_cols (features @ [target] @ required_lookup_cols) (columns short_table)
              = [''Usage Hours'', ''Average_Daily_Usage'']"
    by (simp add: short_table_def features_def target_def required_lookup_cols_def missing_cols_def)
  have m2: "missing_cols hotel_required_cols (columns short_table)
              = [''Usage Hours'', ''Average_Daily_Usage'']"
    by (simp add: short_table_def hotel_required_cols_def missing_cols_def)
  have n1: "\<not> list_all (\<lambda>col. col \<in> set (columns short_table)) (features @ [target] @ required_lookup_cols)"
    by (simp add: short_table_def features_def)
  have n2: "\<not> list_all (\<lambda>col. col \<in> set (columns short_table)) hotel_required_cols"
    by (simp add: short_table_def hotel_required_cols_def)
  have p: "map_of HOTEL_CSV_FILES (lower ''Westin'') = Some ''Westin.csv''"
    by (simp add: HOTEL_CSV_FILES_def lower_Westin)
  have f: "example_files ''Westin.csv'' = Some short_table"
    by (simp add: example_files_def)
  note t = missing_columns_named_in_declaration_order
         [where df = short_table and fit = example_fit and st = example_state
            and hotel_name = "''Westin''" and path = "''Westin.csv''" and files = example_files]
  from t [THEN conjunct1, THEN mp, OF n1, THEN conjunct1]
  have one: "train_model example_fit example_state short_table
     = Inl (ValueError (''Missing required columns in CSV: '' @ join '', '' [''Usage Hours'', ''Average_Daily_Usage'']))"
    unfolding m1 .
  from t [THEN conjunct2, THEN conjunct1, THEN mp, OF p, THEN mp, OF f, THEN mp, OF n2, THEN conjunct1]
  have two: "\<exists>e pre. load_hotel_data example_state example_files ''Westin'' = Inl e
          \<and> message_of e
              = pre @ ''Missing required columns in '' @ quoted ''Westin.csv'' @ '': ''
                  @ join '', '' [''Usage Hours'', ''Average_Daily_Usage'']"
    unfolding m2 .
  from one two show ?thesis by (intro conjI)
qed

section \<open>The dashboard before a file was selected\<close>

lemma collect_all_Inr:
  "(\<forall>x\<in>set xs. \<exists>r. f x = Inr r) \<Longrightarrow> \<exists>ys. collect f xs = Inr ys"
  by (induction xs) auto

text \<open>
  Claim C10, as amended. With a model and a non-empty data set but no file ever selected,
  \<^verbatim>\<open>get_dashboard_insights\<close> never returns the statistics. When no row makes the loop raise,
  it raises an \<^verbatim>\<open>AttributeError\<close> while it builds its result; when a row does, the exception
  of the loop is what leaves the operation.
\<close>

theorem dashboard_without_selected_file:
  assumes "hotel_model st = Some g" and "loaded_training_df st \<noteq> []"
    and "loaded_file_path st = None"
  shows "(\<forall>d. get_dashboard_insights st clk \<noteq> Inr d)
       \<and> ((\<forall>ir\<in>set (indexed (loaded_training_df st)). \<exists>r. dashboard_row g clk ir = Inr r)
            \<longrightarrow> get_dashboard_insights st clk = Inl AttributeError)
       \<and> (collect (dashboard_row g clk) (indexed (loaded_training_df st)) = Inl e
            \<longrightarrow> get_dashboard_insights st clk = Inl e)"
proof -
  have a: "\<forall>d. get_dashboard_insights st clk \<noteq> Inr d"
    using assms by (auto simp: get_dashboard_insights_def Let_def split: sum.splits)
  have b: "get_dashboard_insights st clk = Inl AttributeError"
    if "\<forall>ir\<in>set (indexed (loaded_training_df st)). \<exists>r. dashboard_row g clk ir = Inr r"
  proof -
    from collect_all_Inr [OF that] obtain ys where
      "collect (dashboard_row g clk) (indexed (loaded_training_df st)) = Inr ys" by blast
    with assms show ?thesis by (simp add: get_dashboard_insights_def Let_def)
  qed
  have c: "get_dashboard_insights st clk = Inl e"
    if "collect (dashboard_row g clk) (indexed (loaded_training_df st)) = Inl e"
    using that assms by (simp add: get_dashboard_insights_def Let_def)
  from a b c show ?thesis by blast
qed

lemma unselected_eval: "get_dashboard_insights unselected_state example_clock = Inl AttributeError"
  by code_simp

lemma overflow_eval: "get_dashboard_insights overflow_state example_clock = Inl OverflowError"
  by code_simp

lemma unselected_collect:
  "collect (dashboard_row (\<lambda>u a y. 10) example_clock) (indexed (loaded_training_df unselected_state))
     = Inr (Pending_maintenance example_dashboard)"
  by code_simp

lemma unselected_rows:
  "\<forall>ir\<in>set (indexed (loaded_training_df unselected_state)).
     \<exists>r. dashboard_row (\<lambda>u a y. 10) example_clock ir = Inr r"
  using collect_total [OF unselected_collect] by blast

theorem dashboard_without_selected_file_witness:
  "hotel_model unselected_state = Some (\<lambda>u a y. 10)
   \<and> loaded_training_df unselected_state \<noteq> []
   \<and> loaded_file_path unselected_state = None
   \<and> get_dashboard_insights unselected_state example_clock = Inl AttributeError"
proof -
  have m: "hotel_model unselected_state = Some (\<lambda>u a y. 10)"
    by (simp add: unselected_state_def)
  have d: "loaded_training_df unselected_state \<noteq> []"
    by (simp add: unselected_state_def example_df_def)
  have f: "loaded_file_path unselected_state = None"
    by (simp add: unselected_state_def)
  from dashboard_without_selected_file [OF m d f, of example_clock] unselected_rows m d f
  show ?thesis by blast
qed

text \<open>
  Claim C10 as stated fails: for a record last serviced on the last day of year 9999 the
  next-maintenance date overflows inside the loop, and the operation raises an
  \<^verbatim>\<open>OverflowError\<close> before it reaches the missing attribute.
\<close>

theorem dashboard_attribute_error_counterexample:
  "hotel_model overflow_state \<noteq> None
   \<and> loaded_training_df overflow_state \<noteq> []
   \<and> loaded_file_path overflow_state = None
   \<and> get_dashboard_insights overflow_state example_clock = Inl OverflowError
   \<and> get_dashboard_insights overflow_state example_clock \<noteq> Inl AttributeError"
proof -
  have "hotel_model overflow_state \<noteq> None" "loaded_training_df overflow_state \<noteq> []"
    "loaded_file_path overflow_state = None"
    by (simp_all add: overflow_state_def)
  with overflow_eval show ?thesis by simp
qed

end
